theory Spec2Isabelle
  imports Complex_Main
begin

section \<open>INVASE: the selector loss, the sampler and the training step\<close>

text \<open>
  The development embeds \<^verbatim>\<open>src/INVASE.py\<close>. Numbers are real numbers: the rounding
  and the overflow of 32-bit floats are not modelled, so a sum or product of finite
  numbers is finite here also where a 32-bit float would be an infinity. A number that
  the arithmetic of the arrays cannot represent as a finite value (a NaN, an infinity)
  is \<open>None\<close>; \<open>+\<close>, \<open>-\<close>, \<open>*\<close> and the division by a count keep such a value
  non-finite, so \<open>None\<close> is absorbing.
\<close>

subsection \<open>Values and arrays\<close>

type_synonym val = "real option"

datatype error =
    AttributeError string
  | ValueError
  | IndexError
  | RuntimeError
  | InvalidArgumentError

text \<open>A rank-2 array: its second dimension and its rows. The first dimension is the
  number of rows; every row of a well-formed array has \<open>ncol\<close> entries.\<close>

record ndarray =
  ncol :: nat
  rows :: "val list list"

definition shape0 :: "ndarray \<Rightarrow> nat" where
  "shape0 a = length (rows a)"

definition shape1 :: "ndarray \<Rightarrow> nat" where
  "shape1 a = ncol a"

definition well_formed :: "ndarray \<Rightarrow> bool" where
  "well_formed a = list_all (\<lambda>r. length r = ncol a) (rows a)"

definition bnd :: "error + 'a \<Rightarrow> ('a \<Rightarrow> error + 'b) \<Rightarrow> error + 'b" where
  "bnd m f = (case m of Inl e \<Rightarrow> Inl e | Inr x \<Rightarrow> f x)"

subsection \<open>Arithmetic on values\<close>

definition vlift2 :: "(real \<Rightarrow> real \<Rightarrow> real) \<Rightarrow> val \<Rightarrow> val \<Rightarrow> val" where
  "vlift2 f a b = (case a of None \<Rightarrow> None | Some x \<Rightarrow> (case b of None \<Rightarrow> None | Some y \<Rightarrow> Some (f x y)))"

definition vadd :: "val \<Rightarrow> val \<Rightarrow> val" where
  "vadd = vlift2 (+)"

definition vsub :: "val \<Rightarrow> val \<Rightarrow> val" where
  "vsub = vlift2 (-)"

definition vmul :: "val \<Rightarrow> val \<Rightarrow> val" where
  "vmul = vlift2 (*)"

definition vneg :: "val \<Rightarrow> val" where
  "vneg a = map_option uminus a"

text \<open>The logarithm of zero is minus infinity and that of a negative number is a NaN.\<close>

definition vlog :: "val \<Rightarrow> val" where
  "vlog a = (case a of None \<Rightarrow> None | Some x \<Rightarrow> if 0 < x then Some (ln x) else None)"

definition eps :: real where
  "eps = 1 / 10 ^ 8"

subsection \<open>Array operations of the backend\<close>

text \<open>Column slices \<open>a[:, lo:hi]\<close> and \<open>a[:, lo:]\<close>; a bound beyond the width is clamped.\<close>

definition slice_cols :: "nat \<Rightarrow> nat \<Rightarrow> ndarray \<Rightarrow> ndarray" where
  "slice_cols lo hi a =
     \<lparr>ncol = min hi (ncol a) - min lo (ncol a),
      rows = map (\<lambda>r. take (hi - lo) (drop lo r)) (rows a)\<rparr>"

definition slice_from :: "nat \<Rightarrow> ndarray \<Rightarrow> ndarray" where
  "slice_from lo a = \<lparr>ncol = ncol a - lo, rows = map (drop lo) (rows a)\<rparr>"

definition map_nd :: "(val \<Rightarrow> val) \<Rightarrow> ndarray \<Rightarrow> ndarray" where
  "map_nd f a = \<lparr>ncol = ncol a, rows = map (map f) (rows a)\<rparr>"

text \<open>Broadcasting of one dimension: equal sizes, or one of them is 1.\<close>

definition bdim :: "nat \<Rightarrow> nat \<Rightarrow> nat option" where
  "bdim m n = (if m = n then Some m else if m = 1 then Some n else if n = 1 then Some m else None)"

definition bidx :: "nat \<Rightarrow> nat \<Rightarrow> nat" where
  "bidx n i = (if n = 1 then 0 else i)"

definition ew1 :: "(val \<Rightarrow> val \<Rightarrow> val) \<Rightarrow> val list \<Rightarrow> val list \<Rightarrow> error + val list" where
  "ew1 f u v =
     (case bdim (length u) (length v) of
        None \<Rightarrow> Inl InvalidArgumentError
      | Some n \<Rightarrow> Inr (map (\<lambda>i. f (u ! bidx (length u) i) (v ! bidx (length v) i)) [0..<n]))"

definition ew2 :: "(val \<Rightarrow> val \<Rightarrow> val) \<Rightarrow> ndarray \<Rightarrow> ndarray \<Rightarrow> error + ndarray" where
  "ew2 f a b =
     (case bdim (shape0 a) (shape0 b) of
        None \<Rightarrow> Inl InvalidArgumentError
      | Some n \<Rightarrow>
          (case bdim (ncol a) (ncol b) of
             None \<Rightarrow> Inl InvalidArgumentError
           | Some c \<Rightarrow>
               Inr \<lparr>ncol = c,
                    rows = map (\<lambda>i. map (\<lambda>j. f (rows a ! bidx (shape0 a) i ! bidx (ncol a) j)
                                              (rows b ! bidx (shape0 b) i ! bidx (ncol b) j))
                                         [0..<c])
                               [0..<n]\<rparr>))"

definition vsum :: "val list \<Rightarrow> val" where
  "vsum xs = foldr vadd xs (Some 0)"

text \<open>The mean of no numbers is 0/0, a NaN.\<close>

definition vmean :: "val list \<Rightarrow> val" where
  "vmean xs = (if xs = [] then None else vlift2 (/) (vsum xs) (Some (real (length xs))))"

definition reduce_sum_axis1 :: "ndarray \<Rightarrow> val list" where
  "reduce_sum_axis1 a = map vsum (rows a)"

definition reduce_mean_axis1 :: "ndarray \<Rightarrow> val list" where
  "reduce_mean_axis1 a = map vmean (rows a)"

definition reduce_mean :: "val list \<Rightarrow> val" where
  "reduce_mean v = vmean v"

subsection \<open>The networks and the INVASE object\<close>

text \<open>A Keras model: its layers, the widths of its input and of its last layer, the
  loss it was compiled with (none before \<open>compile\<close>) and its parameters (weights and
  batch-normalisation statistics), of an abstract type.\<close>

datatype layer =
    Dense nat string string real
  | BatchNormalization

datatype loss_fn = categorical_crossentropy | custom_my_loss

record 'w model =
  layers :: "layer list"
  in_dim :: nat
  out_dim :: nat
  loss :: "loss_fn option"
  weights :: 'w

text \<open>What the library does and the source does not say is a parameter: the output of
  unit \<open>j\<close> of a network on one input row, one optimizer step on a batch (it gives the
  new state of the optimizer, the new parameters and the values \<open>train_on_batch\<close>
  returns), the optimizer \<open>Adam(lr)\<close> and the initial parameters of the \<open>k\<close>-th
  network built.\<close>

record ('w, 'o) keras =
  forward :: "'w \<Rightarrow> val list \<Rightarrow> nat \<Rightarrow> val"
  gradient_step :: "loss_fn \<Rightarrow> 'o \<Rightarrow> 'w \<Rightarrow> ndarray \<Rightarrow> ndarray \<Rightarrow> error + ('o \<times> 'w \<times> val list)"
  Adam :: "real \<Rightarrow> 'o"
  initial_weights :: "nat \<Rightarrow> layer list \<Rightarrow> 'w"

text \<open>The attributes that \<open>__init__\<close> sets. The one optimizer object is shared by the
  three models. \<open>trace\<close> is a ghost field: the calls made on the models, in order,
  each \<open>Predict\<close> with its input and its result, each \<open>TrainOnBatch\<close> with its
  input and its target.\<close>

datatype netname = Predictor | Selector | Baseline

datatype event =
    Predict netname ndarray ndarray
  | TrainOnBatch netname ndarray ndarray

record ('w, 'o) invase =
  is_logging_enabled :: bool
  batch_size :: nat
  epochs :: int
  tau :: real
  input_shape :: nat
  activation :: string
  optimizer :: 'o
  predictor :: "'w model"
  selector :: "'w model"
  baseline :: "'w model"
  trace :: "event list"

subsection \<open>The selector's loss\<close>

text \<open>The four slices of the composite target that \<open>my_loss\<close> takes, \<open>d\<close> being the
  width of the selector's output.\<close>

definition sel_prob_of :: "nat \<Rightarrow> ndarray \<Rightarrow> ndarray" where
  "sel_prob_of d y_true = slice_cols 0 d y_true"

definition dis_prob_of :: "nat \<Rightarrow> ndarray \<Rightarrow> ndarray" where
  "dis_prob_of d y_true = slice_cols d (d + 2) y_true"

definition val_prob_of :: "nat \<Rightarrow> ndarray \<Rightarrow> ndarray" where
  "val_prob_of d y_true = slice_cols (d + 2) (d + 4) y_true"

definition y_final_of :: "nat \<Rightarrow> ndarray \<Rightarrow> ndarray" where
  "y_final_of d y_true = slice_from (d + 4) y_true"

text \<open>The arguments of the logarithms: \<open>prob + 1e-8\<close> and \<open>1 - y_pred + 1e-8\<close>.\<close>

definition plus_eps :: "ndarray \<Rightarrow> ndarray" where
  "plus_eps prob = map_nd (\<lambda>v. vadd v (Some eps)) prob"

definition one_minus_plus_eps :: "ndarray \<Rightarrow> ndarray" where
  "one_minus_plus_eps y_pred = map_nd (\<lambda>v. vadd (vsub (Some 1) v) (Some eps)) y_pred"

text \<open>\<open>tf.reduce_sum(y_final * tf.log(prob + 1e-8), axis = 1)\<close>, the form of both
  \<open>Reward1\<close> (on \<open>dis_prob\<close>) and \<open>Reward2\<close> (on \<open>val_prob\<close>).\<close>

definition log_reward :: "ndarray \<Rightarrow> ndarray \<Rightarrow> error + val list" where
  "log_reward y_final prob =
     bnd (ew2 vmul y_final (map_nd vlog (plus_eps prob)))
         (\<lambda>t. Inr (reduce_sum_axis1 t))"

definition Reward1_of :: "nat \<Rightarrow> ndarray \<Rightarrow> error + val list" where
  "Reward1_of d y_true = log_reward (y_final_of d y_true) (dis_prob_of d y_true)"

definition Reward2_of :: "nat \<Rightarrow> ndarray \<Rightarrow> error + val list" where
  "Reward2_of d y_true = log_reward (y_final_of d y_true) (val_prob_of d y_true)"

definition Reward_of :: "nat \<Rightarrow> ndarray \<Rightarrow> error + val list" where
  "Reward_of d y_true =
     bnd (Reward1_of d y_true) (\<lambda>Reward1.
     bnd (Reward2_of d y_true) (\<lambda>Reward2.
     ew1 vsub Reward1 Reward2))"

text \<open>The sum over the features of
  \<open>sel_prob * log(y_pred + 1e-8) + (1 - sel_prob) * log(1 - y_pred + 1e-8)\<close>.\<close>

definition log_likelihood :: "ndarray \<Rightarrow> ndarray \<Rightarrow> error + val list" where
  "log_likelihood sel_prob y_pred =
     bnd (ew2 vmul sel_prob (map_nd vlog (plus_eps y_pred))) (\<lambda>a.
     bnd (ew2 vmul (map_nd (\<lambda>v. vsub (Some 1) v) sel_prob)
            (map_nd vlog (one_minus_plus_eps y_pred))) (\<lambda>b.
     bnd (ew2 vadd a b) (\<lambda>s.
     Inr (reduce_sum_axis1 s))))"

definition my_loss :: "('w, 'o) invase \<Rightarrow> ndarray \<Rightarrow> ndarray \<Rightarrow> error + val" where
  "my_loss self y_true y_pred =
     (let d = shape1 y_pred in
      bnd (Reward_of d y_true) (\<lambda>Reward.
      bnd (log_likelihood (sel_prob_of d y_true) y_pred) (\<lambda>ll.
      bnd (ew1 vmul Reward ll) (\<lambda>pg.
      bnd (ew1 vsub pg (map (\<lambda>m. vmul (Some (tau self)) m) (reduce_mean_axis1 y_pred))) (\<lambda>loss1.
      Inr (reduce_mean (map vneg loss1)))))))"

subsection \<open>Building the object\<close>

definition build_selector :: "('w, 'o) keras \<Rightarrow> nat \<Rightarrow> string \<Rightarrow> nat \<Rightarrow> 'w model" where
  "build_selector K k act d =
     (let ls = [Dense 100 act ''s/dense1'' (1 / 10 ^ 3),
                Dense 100 act ''s/dense2'' (1 / 10 ^ 3),
                Dense d ''sigmoid'' ''s/dense3'' (1 / 10 ^ 3)]
      in \<lparr>layers = ls, in_dim = d, out_dim = d, loss = None, weights = initial_weights K k ls\<rparr>)"

definition build_base_network :: "('w, 'o) keras \<Rightarrow> nat \<Rightarrow> string \<Rightarrow> nat \<Rightarrow> 'w model" where
  "build_base_network K k act d =
     (let ls = [Dense 200 act ''dense1'' (1 / 10 ^ 3),
                BatchNormalization,
                Dense 200 act ''dense2'' (1 / 10 ^ 3),
                BatchNormalization,
                Dense 2 ''softmax'' ''dense3'' (1 / 10 ^ 3)]
      in \<lparr>layers = ls, in_dim = d, out_dim = 2, loss = None, weights = initial_weights K k ls\<rparr>)"

definition compile :: "'w model \<Rightarrow> loss_fn \<Rightarrow> 'w model" where
  "compile m l = m\<lparr>loss := Some l\<rparr>"

definition INVASE_init ::
  "('w, 'o) keras \<Rightarrow> ndarray \<Rightarrow> string \<Rightarrow> int \<Rightarrow> bool \<Rightarrow> real \<Rightarrow> ('w, 'o) invase" where
  "INVASE_init K x_train data_type n_epoch logging learning_rate =
     (let d = shape1 x_train;
          act = (if data_type \<in> set [''Syn1'', ''Syn2''] then ''relu'' else ''selu'')
      in \<lparr>is_logging_enabled = logging,
          batch_size = min 1000 (shape0 x_train),
          epochs = n_epoch,
          tau = 1 / 10,
          input_shape = d,
          activation = act,
          optimizer = Adam K learning_rate,
          predictor = compile (build_base_network K 0 act d) categorical_crossentropy,
          selector = compile (build_selector K 1 act d) custom_my_loss,
          baseline = compile (build_base_network K 2 act d) categorical_crossentropy,
          trace = []\<rparr>)"

subsection \<open>Calls on the models\<close>

text \<open>\<open>predict\<close> refuses an input of the wrong width and works row by row.
  \<open>train_on_batch\<close> also checks the target against the output width, except for a
  loss of the user's, about which Keras assumes nothing.\<close>

definition predict :: "('w, 'o) keras \<Rightarrow> 'w model \<Rightarrow> ndarray \<Rightarrow> error + ndarray" where
  "predict K m x =
     (if ncol x \<noteq> in_dim m then Inl ValueError
      else Inr \<lparr>ncol = out_dim m,
                rows = map (\<lambda>r. map (forward K (weights m) r) [0..<out_dim m]) (rows x)\<rparr>)"

definition train_on_batch ::
  "('w, 'o) keras \<Rightarrow> 'o \<Rightarrow> 'w model \<Rightarrow> ndarray \<Rightarrow> ndarray \<Rightarrow> error + ('o \<times> 'w model \<times> val list)" where
  "train_on_batch K opt m x y =
     (case loss m of
        None \<Rightarrow> Inl RuntimeError
      | Some l \<Rightarrow>
          if ncol x \<noteq> in_dim m \<or> shape0 x \<noteq> shape0 y
             \<or> (l = categorical_crossentropy \<and> ncol y \<noteq> out_dim m)
          then Inl ValueError
          else bnd (gradient_step K l opt (weights m) x y)
                 (\<lambda>(opt', w', metrics). Inr (opt', m\<lparr>weights := w'\<rparr>, metrics)))"

definition get_net :: "netname \<Rightarrow> ('w, 'o) invase \<Rightarrow> 'w model" where
  "get_net nm self = (case nm of Predictor \<Rightarrow> predictor self | Selector \<Rightarrow> selector self | Baseline \<Rightarrow> baseline self)"

definition set_net :: "netname \<Rightarrow> 'w model \<Rightarrow> ('w, 'o) invase \<Rightarrow> ('w, 'o) invase" where
  "set_net nm m self =
     (case nm of Predictor \<Rightarrow> self\<lparr>predictor := m\<rparr>
               | Selector \<Rightarrow> self\<lparr>selector := m\<rparr>
               | Baseline \<Rightarrow> self\<lparr>baseline := m\<rparr>)"

definition net_predict ::
  "('w, 'o) keras \<Rightarrow> netname \<Rightarrow> ndarray \<Rightarrow> ('w, 'o) invase \<Rightarrow> error + (ndarray \<times> ('w, 'o) invase)" where
  "net_predict K nm x self =
     bnd (predict K (get_net nm self) x)
       (\<lambda>y. Inr (y, self\<lparr>trace := trace self @ [Predict nm x y]\<rparr>))"

definition net_train_on_batch ::
  "('w, 'o) keras \<Rightarrow> netname \<Rightarrow> ndarray \<Rightarrow> ndarray \<Rightarrow> ('w, 'o) invase
     \<Rightarrow> error + (val list \<times> ('w, 'o) invase)" where
  "net_train_on_batch K nm x y self =
     bnd (train_on_batch K (optimizer self) (get_net nm self) x y)
       (\<lambda>(opt', m', metrics).
          Inr (metrics,
               set_net nm m' (self\<lparr>optimizer := opt', trace := trace self @ [TrainOnBatch nm x y]\<rparr>)))"

subsection \<open>The random source\<close>

text \<open>The global generator of NumPy is a stream of uniform draws from \<open>[0, 1)\<close>, read
  from the front. \<open>randint(low, high, size)\<close> scales one draw per index;
  \<open>binomial(1, p)\<close> is 1 when its draw is below \<open>p\<close>, so that 1 has probability
  \<open>p\<close>, and refuses a \<open>p\<close> that is a NaN or outside \<open>[0, 1]\<close>.\<close>

type_synonym rng = "nat \<Rightarrow> real"

definition rng_ok :: "rng \<Rightarrow> bool" where
  "rng_ok u = (\<forall>k. 0 \<le> u k \<and> u k < 1)"

definition advance :: "nat \<Rightarrow> rng \<Rightarrow> rng" where
  "advance n u = (\<lambda>k. u (k + n))"

definition randint :: "int \<Rightarrow> int \<Rightarrow> nat \<Rightarrow> rng \<Rightarrow> error + (int list \<times> rng)" where
  "randint low high n u =
     (if high \<le> low then Inl ValueError
      else Inr (map (\<lambda>k. low + \<lfloor>u k * real_of_int (high - low)\<rfloor>) [0..<n], advance n u))"

definition valid_p :: "val \<Rightarrow> bool" where
  "valid_p v = (case v of None \<Rightarrow> False | Some p \<Rightarrow> 0 \<le> p \<and> p \<le> 1)"

definition bernoulli :: "val \<Rightarrow> real \<Rightarrow> val" where
  "bernoulli v u = (case v of None \<Rightarrow> None | Some p \<Rightarrow> Some (if u < p then 1 else 0))"

definition binomial1 :: "ndarray \<Rightarrow> nat \<times> nat \<Rightarrow> rng \<Rightarrow> error + (ndarray \<times> rng)" where
  "binomial1 p sz u =
     (if \<not> list_all (list_all valid_p) (rows p) then Inl ValueError
      else if sz \<noteq> (shape0 p, shape1 p) then Inl ValueError
      else Inr (\<lparr>ncol = snd sz,
                 rows = map (\<lambda>(i, r). map (\<lambda>(j, v). bernoulli v (u (i * snd sz + j))) (enumerate 0 r))
                            (enumerate 0 (rows p))\<rparr>,
                advance (fst sz * snd sz) u))"

subsection \<open>The sampler\<close>

definition Sample_M :: "ndarray \<Rightarrow> rng \<Rightarrow> error + (ndarray \<times> rng)" where
  "Sample_M gen_prob u =
     (let n = shape0 gen_prob;
          d = shape1 gen_prob
      in binomial1 gen_prob (n, d) u)"

subsection \<open>The training procedure\<close>

text \<open>\<open>a[idx, :]\<close>: an index out of range raises; a negative one counts from the end.\<close>

definition take_rows :: "int list \<Rightarrow> ndarray \<Rightarrow> error + ndarray" where
  "take_rows idx a =
     (let n = int (shape0 a)
      in if list_all (\<lambda>i. - n \<le> i \<and> i < n) idx
         then Inr \<lparr>ncol = ncol a, rows = map (\<lambda>i. rows a ! nat (if i < 0 then n + i else i)) idx\<rparr>
         else Inl IndexError)"

text \<open>\<open>np.concatenate(..., axis = 1)\<close>: the arrays must have the same number of rows.\<close>

definition concatenate_axis1 :: "ndarray list \<Rightarrow> error + ndarray" where
  "concatenate_axis1 as =
     (case as of
        [] \<Rightarrow> Inl ValueError
      | a # _ \<Rightarrow>
          if list_all (\<lambda>b. shape0 b = shape0 a) as
          then Inr \<lparr>ncol = sum_list (map ncol as),
                    rows = map (\<lambda>i. concat (map (\<lambda>b. rows b ! i) as)) [0..<shape0 a]\<rparr>
          else Inl ValueError)"

text \<open>A NumPy array has an element type. It matters at one place: the layer
  \<open>Multiply\<close> multiplies two arrays of one element type and refuses two arrays of
  different element types. A batch has the element type of the training set it is read
  from, and the array that \<open>np.random.binomial\<close> returns is of 64-bit integers.\<close>

datatype dtype = float32 | float64 | int32 | int64

record nparray =
  dtype :: dtype
  arr :: ndarray

definition of_dtype :: "dtype \<Rightarrow> ndarray \<Rightarrow> nparray" where
  "of_dtype t a = \<lparr>dtype = t, arr = a\<rparr>"

definition Multiply :: "nparray \<Rightarrow> nparray \<Rightarrow> error + nparray" where
  "Multiply a b =
     (if dtype a \<noteq> dtype b then Inl InvalidArgumentError
      else bnd (ew2 vmul (arr a) (arr b)) (\<lambda>c. Inr (of_dtype (dtype a) c)))"

definition index1 :: "val list \<Rightarrow> error + val" where
  "index1 l = (if 1 < length l then Inr (l ! 1) else Inl IndexError)"

text \<open>The local variables of one pass of the loop of \<open>train\<close>.\<close>

record step_locals =
  idx :: "int list"
  x_batch :: ndarray
  y_batch :: ndarray
  sel_prob :: ndarray
  sel_mask :: ndarray
  sel_feat :: ndarray
  dis_prob :: ndarray
  d_loss :: "val list"
  val_prob :: ndarray
  v_loss :: "val list"
  y_batch_final :: ndarray
  g_loss :: "val list"

datatype dialog = Dialog nat val val "val list"

text \<open>One pass of the loop, in two parts: the draw of the indices of the batch, and
  what the pass does with the indices drawn. The locals hold the entries of the arrays;
  \<open>x_batch\<close> has the element type of \<open>x_train\<close>, \<open>sel_mask\<close> is of 64-bit integers and
  \<open>sel_feat\<close> has the element type of the product.\<close>

definition train_step_on ::
  "('w, 'o) keras \<Rightarrow> nparray \<Rightarrow> nparray \<Rightarrow> ('w, 'o) invase \<Rightarrow> int list \<Rightarrow> rng
     \<Rightarrow> error + (('w, 'o) invase \<times> rng \<times> step_locals)" where
  "train_step_on K x_train y_train self ix u =
     bnd (take_rows ix (arr x_train)) (\<lambda>x_batch.
     bnd (take_rows ix (arr y_train)) (\<lambda>y_batch.
     bnd (net_predict K Selector x_batch self) (\<lambda>(sel_prob, self).
     bnd (Sample_M sel_prob u) (\<lambda>(sel_mask, u).
     bnd (Multiply (of_dtype (dtype x_train) x_batch) (of_dtype int64 sel_mask)) (\<lambda>sel_feat.
     bnd (net_predict K Predictor (arr sel_feat) self) (\<lambda>(dis_prob, self).
     bnd (net_train_on_batch K Predictor (arr sel_feat) y_batch self) (\<lambda>(d_loss, self).
     bnd (net_predict K Baseline x_batch self) (\<lambda>(val_prob, self).
     bnd (net_train_on_batch K Baseline x_batch y_batch self) (\<lambda>(v_loss, self).
     bnd (concatenate_axis1 [sel_prob, dis_prob, val_prob, y_batch]) (\<lambda>y_batch_final.
     bnd (net_train_on_batch K Selector x_batch y_batch_final self) (\<lambda>(g_loss, self).
     Inr (self, u,
          \<lparr>idx = ix, x_batch = x_batch, y_batch = y_batch, sel_prob = sel_prob,
           sel_mask = sel_mask, sel_feat = arr sel_feat, dis_prob = dis_prob, d_loss = d_loss,
           val_prob = val_prob, v_loss = v_loss, y_batch_final = y_batch_final,
           g_loss = g_loss\<rparr>))))))))))))"

definition train_step ::
  "('w, 'o) keras \<Rightarrow> nparray \<Rightarrow> nparray \<Rightarrow> ('w, 'o) invase \<times> rng
     \<Rightarrow> error + (('w, 'o) invase \<times> rng \<times> step_locals)" where
  "train_step K x_train y_train st =
     (case st of (self, u) \<Rightarrow>
      bnd (randint 0 (int (shape0 (arr x_train))) (batch_size self) u) (\<lambda>(idx, u).
      train_step_on K x_train y_train self idx u))"

text \<open>The progress line is built in every pass (so \<open>d_loss[1]\<close> and \<open>v_loss[1]\<close> are
  read in every pass) and printed in every hundredth.\<close>

definition progress :: "nat \<Rightarrow> step_locals \<Rightarrow> error + dialog list" where
  "progress epoch l =
     bnd (index1 (d_loss l)) (\<lambda>d_acc.
     bnd (index1 (v_loss l)) (\<lambda>v_acc.
     Inr (if epoch mod 100 = 0 then [Dialog epoch d_acc v_acc (g_loss l)] else [])))"

fun train_loop ::
  "('w, 'o) keras \<Rightarrow> nparray \<Rightarrow> nparray \<Rightarrow> nat list \<Rightarrow> ('w, 'o) invase \<times> rng \<times> dialog list
     \<Rightarrow> error + (('w, 'o) invase \<times> rng \<times> dialog list)" where
  "train_loop K x_train y_train [] st = Inr st"
| "train_loop K x_train y_train (epoch # es) (self, u, out) =
     bnd (train_step K x_train y_train (self, u)) (\<lambda>(self, u, l).
     bnd (progress epoch l) (\<lambda>printed.
     train_loop K x_train y_train es (self, u, out @ printed)))"

definition train ::
  "('w, 'o) keras \<Rightarrow> nparray \<Rightarrow> nparray \<Rightarrow> ('w, 'o) invase \<times> rng
     \<Rightarrow> error + (('w, 'o) invase \<times> rng \<times> dialog list)" where
  "train K x_train y_train st =
     (case st of (self, u) \<Rightarrow>
        train_loop K x_train y_train [0..<nat (epochs self)] (self, u, []))"

subsection \<open>Selected features and predictions\<close>

text \<open>Reading an attribute that holds a model: the object has the attributes that
  \<open>__init__\<close> sets and no other.\<close>

definition getattr_model :: "('w, 'o) invase \<Rightarrow> string \<Rightarrow> error + netname" where
  "getattr_model self name =
     (if name = ''predictor'' then Inr Predictor
      else if name = ''selector'' then Inr Selector
      else if name = ''baseline'' then Inr Baseline
      else Inl (AttributeError name))"

text \<open>A model built on one \<open>Input\<close> refuses a list of two arrays.\<close>

definition net_predict_list ::
  "('w, 'o) keras \<Rightarrow> netname \<Rightarrow> ndarray list \<Rightarrow> ('w, 'o) invase \<Rightarrow> error + (ndarray \<times> ('w, 'o) invase)" where
  "net_predict_list K nm xs self =
     (case xs of [x] \<Rightarrow> net_predict K nm x self | _ \<Rightarrow> Inl ValueError)"

definition output' ::
  "('w, 'o) keras \<Rightarrow> ('w, 'o) invase \<Rightarrow> ndarray \<Rightarrow> error + (ndarray \<times> ('w, 'o) invase)" where
  "output' K self x_train =
     bnd (getattr_model self ''generator'') (\<lambda>generator.
     bnd (net_predict K generator x_train self) (\<lambda>(gen_prob, self).
     Inr (gen_prob, self)))"

definition get_prediction ::
  "('w, 'o) keras \<Rightarrow> ('w, 'o) invase \<Rightarrow> ndarray \<Rightarrow> ndarray
     \<Rightarrow> error + ((ndarray \<times> ndarray) \<times> ('w, 'o) invase)" where
  "get_prediction K self x_train m_train =
     bnd (getattr_model self ''valfunction'') (\<lambda>valfunction.
     bnd (net_predict K valfunction x_train self) (\<lambda>(val_prediction, self).
     bnd (getattr_model self ''discriminator'') (\<lambda>discriminator.
     bnd (net_predict_list K discriminator [x_train, m_train] self) (\<lambda>(dis_prediction, self).
     Inr ((val_prediction, dis_prediction), self)))))"

subsection \<open>Notions used in the statements\<close>

text \<open>The array with \<open>n\<close> rows and \<open>c\<close> columns whose entry \<open>(i, j)\<close> is \<open>g i j\<close>,
  the number at an entry, arrays free of non-finite values, and arrays whose entries
  are finite and within closed or open bounds.\<close>

definition tab :: "nat \<Rightarrow> nat \<Rightarrow> (nat \<Rightarrow> nat \<Rightarrow> val) \<Rightarrow> ndarray" where
  "tab c n g = \<lparr>ncol = c, rows = map (\<lambda>i. map (\<lambda>j. g i j) [0..<c]) [0..<n]\<rparr>"

definition entry :: "ndarray \<Rightarrow> nat \<Rightarrow> nat \<Rightarrow> real" where
  "entry a i j = the (rows a ! i ! j)"

definition in_closed :: "real \<Rightarrow> real \<Rightarrow> val \<Rightarrow> bool" where
  "in_closed lb ub v = (case v of None \<Rightarrow> False | Some p \<Rightarrow> lb \<le> p \<and> p \<le> ub)"

definition in_open :: "real \<Rightarrow> real \<Rightarrow> val \<Rightarrow> bool" where
  "in_open lb ub v = (case v of None \<Rightarrow> False | Some p \<Rightarrow> lb < p \<and> p < ub)"

definition positive :: "val \<Rightarrow> bool" where
  "positive v = (case v of None \<Rightarrow> False | Some p \<Rightarrow> 0 < p)"

definition is_finite :: "val \<Rightarrow> bool" where
  "is_finite v = (v \<noteq> None)"

definition all_entries :: "(val \<Rightarrow> bool) \<Rightarrow> ndarray \<Rightarrow> bool" where
  "all_entries P a = list_all (list_all P) (rows a)"

text \<open>The loss as the specification words it, for a composite target and a selector
  output of finite entries: the reward of example \<open>i\<close>, the surrogate of example \<open>i\<close>
  with the penalty weight \<open>t\<close>, and the negative mean over the examples; the mean of no
  numbers is not a number.\<close>

definition spec_reward :: "nat \<Rightarrow> ndarray \<Rightarrow> nat \<Rightarrow> real" where
  "spec_reward d y_true i =
     (\<Sum>c<2. entry y_true i (d + 4 + c) * ln (entry y_true i (d + c) + eps))
     - (\<Sum>c<2. entry y_true i (d + 4 + c) * ln (entry y_true i (d + 2 + c) + eps))"

definition spec_surrogate :: "real \<Rightarrow> nat \<Rightarrow> ndarray \<Rightarrow> ndarray \<Rightarrow> nat \<Rightarrow> real" where
  "spec_surrogate t d y_true y_pred i =
     spec_reward d y_true i
       * (\<Sum>j<d. entry y_true i j * ln (entry y_pred i j + eps)
                 + (1 - entry y_true i j) * ln (1 - entry y_pred i j + eps))
     - t * ((\<Sum>j<d. entry y_pred i j) / real d)"

definition spec_loss :: "real \<Rightarrow> ndarray \<Rightarrow> ndarray \<Rightarrow> val" where
  "spec_loss t y_true y_pred =
     (let d = ncol y_pred; n = shape0 y_pred
      in if n = 0 \<or> d = 0 then None
         else Some (- ((\<Sum>i<n. spec_surrogate t d y_true y_pred i) / real n)))"

text \<open>An instance of the library's part, to run the model on concrete inputs: the
  parameters of a network are one number \<open>w\<close>, every unit gives \<open>w / (1 + x * x)\<close> for
  the first feature \<open>x\<close> of the row, an optimizer step halves \<open>w\<close> and counts the
  steps, and a new network starts at \<open>w = 1/2\<close>.\<close>

definition const_keras :: "(real, nat) keras" where
  "const_keras =
     \<lparr>forward = (\<lambda>w r j. case r of Some x # _ \<Rightarrow> Some (w / (1 + x * x)) | _ \<Rightarrow> None),
      gradient_step = (\<lambda>l opt w x y. Inr (Suc opt, w / 2, [Some 0, Some 1])),
      Adam = (\<lambda>lr. 0),
      initial_weights = (\<lambda>k ls. 1 / 2)\<rparr>"

text \<open>What \<open>__init__\<close> fixes of the three models for a feature dimension \<open>d\<close>, and what
  no later step changes: the widths and the losses.\<close>

definition compiled_for :: "nat \<Rightarrow> ('w, 'o) invase \<Rightarrow> bool" where
  "compiled_for d self =
     (in_dim (selector self) = d \<and> out_dim (selector self) = d
      \<and> loss (selector self) = Some custom_my_loss
      \<and> in_dim (predictor self) = d \<and> out_dim (predictor self) = 2
      \<and> loss (predictor self) = Some categorical_crossentropy
      \<and> in_dim (baseline self) = d \<and> out_dim (baseline self) = 2
      \<and> loss (baseline self) = Some categorical_crossentropy)"


text \<open>A training set of one example with one feature, its label, the object built on
  it, and two random sources: both draw example 0; with the first the feature is
  selected, with the second it is not. On the second training set the feature is 0,
  selected or not. The third has two examples; the object built on it has batches of
  two, the source \<open>draws_twice\<close> draws example 1 twice and the source
  \<open>draws_swap\<close> draws example 1 and then example 0.\<close>

definition x_one :: ndarray where
  "x_one = \<lparr>ncol = 1, rows = [[Some 3]]\<rparr>"

definition x_zero :: ndarray where
  "x_zero = \<lparr>ncol = 1, rows = [[Some 0]]\<rparr>"

definition y_one :: ndarray where
  "y_one = \<lparr>ncol = 2, rows = [[Some 1, Some 0]]\<rparr>"

definition self_one :: "(real, nat) invase" where
  "self_one = INVASE_init const_keras x_one ''Syn6'' 1 True (1 / 10000)"

definition draws_keep :: rng where
  "draws_keep = (\<lambda>k. 1 / 100)"

definition draws_drop :: rng where
  "draws_drop = (\<lambda>k. if k = 0 then 1 / 100 else 1 / 2)"

definition x_two :: ndarray where
  "x_two = \<lparr>ncol = 1, rows = [[Some 3], [Some 0]]\<rparr>"

definition y_two :: ndarray where
  "y_two = \<lparr>ncol = 2, rows = [[Some 1, Some 0], [Some 0, Some 1]]\<rparr>"

definition self_two :: "(real, nat) invase" where
  "self_two = INVASE_init const_keras x_two ''Syn6'' 1 True (1 / 10000)"

definition draws_twice :: rng where
  "draws_twice = (\<lambda>k. if k < 2 then 3 / 4 else 1 / 100)"

definition draws_swap :: rng where
  "draws_swap = (\<lambda>k. if k = 0 then 3 / 4 else 1 / 100)"

section \<open>Properties\<close>

subsection \<open>Selected features and predictions\<close>

lemma bnd_Inr [simp]: "bnd (Inr x) f = f x"
  by (simp add: bnd_def)

lemma bnd_Inl [simp]: "bnd (Inl e) f = Inl e"
  by (simp add: bnd_def)

text \<open>
  C2. The claim is that \<open>output\<close> returns the selector's selection probabilities on
  the batch and changes no network. The method reads the attribute \<open>generator\<close>, which
  \<open>__init__\<close> never sets (the selector is stored as \<open>selector\<close>): on every object and
  every batch the call ends in an AttributeError and returns nothing.
\<close>

theorem output_raises_AttributeError:
  "output' K self x_train = Inl (AttributeError ''generator'')"
  by (simp add: output'_def getattr_model_def)

text \<open>
  C3. The claim is that \<open>get_prediction\<close> returns the predictions of the baseline and
  of the predictor and changes no network. The method reads the attribute
  \<open>valfunction\<close>, which \<open>__init__\<close> never sets (the baseline is stored as \<open>baseline\<close>,
  the predictor as \<open>predictor\<close>): on every object, batch and mask the call ends in an
  AttributeError and returns nothing.
\<close>

theorem get_prediction_raises_AttributeError:
  "get_prediction K self x_train m_train = Inl (AttributeError ''valfunction'')"
  by (simp add: get_prediction_def getattr_model_def)

subsection \<open>The selector's loss\<close>

lemma tab_sel [simp]: "ncol (tab c n g) = c" "shape0 (tab c n g) = n" "shape1 (tab c n g) = c"
  by (simp_all add: tab_def shape0_def shape1_def)

lemma tab_cong: "(\<And>i j. i < n \<Longrightarrow> j < c \<Longrightarrow> g i j = h i j) \<Longrightarrow> tab c n g = tab c n h"
  by (simp add: tab_def)

lemma well_formed_tab: "well_formed a \<Longrightarrow> a = tab (ncol a) (shape0 a) (\<lambda>i j. rows a ! i ! j)"
proof -
  assume w: "well_formed a"
  have "rows a = map (\<lambda>i. map (\<lambda>j. rows a ! i ! j) [0..<ncol a]) [0..<length (rows a)]"
  proof (rule nth_equalityI)
    show "length (rows a) = length (map (\<lambda>i. map (\<lambda>j. rows a ! i ! j) [0..<ncol a]) [0..<length (rows a)])" by simp
  next
    fix i assume i: "i < length (rows a)"
    then have "length (rows a ! i) = ncol a" using w by (simp add: well_formed_def list_all_length)
    then have "rows a ! i = map (\<lambda>j. rows a ! i ! j) [0..<ncol a]"
      by (metis map_nth)
    then show "rows a ! i = map (\<lambda>i. map (\<lambda>j. rows a ! i ! j) [0..<ncol a]) [0..<length (rows a)] ! i"
      using i by simp
  qed
  then show ?thesis by (simp add: tab_def shape0_def)
qed

lemma slice_cols_tab: "slice_cols lo hi (tab c n g) = tab (min hi c - min lo c) n (\<lambda>i j. g i (lo + j))"
proof -
  have "take (hi - lo) (drop lo (map (g i) [0..<c])) = map (\<lambda>j. g i (lo + j)) [0..<min hi c - min lo c]" for i
  proof (rule nth_equalityI)
    show "length (take (hi - lo) (drop lo (map (g i) [0..<c]))) = length (map (\<lambda>j. g i (lo + j)) [0..<min hi c - min lo c])"
      by (auto simp: min_def)
  next
    fix k assume "k < length (take (hi - lo) (drop lo (map (g i) [0..<c])))"
    then have k: "k < hi - lo" "lo + k < c" by auto
    then have k': "k < min hi c - min lo c" by (auto simp: min_def)
    show "take (hi - lo) (drop lo (map (g i) [0..<c])) ! k = map (\<lambda>j. g i (lo + j)) [0..<min hi c - min lo c] ! k"
      using k k' by simp
  qed
  then show ?thesis by (simp add: slice_cols_def tab_def)
qed

lemma slice_from_tab: "slice_from lo (tab c n g) = tab (c - lo) n (\<lambda>i j. g i (lo + j))"
proof -
  have "drop lo (map (g i) [0..<c]) = map (\<lambda>j. g i (lo + j)) [0..<c - lo]" for i
    by (rule nth_equalityI) auto
  then show ?thesis by (simp add: slice_from_def tab_def)
qed

lemma map_nd_tab: "map_nd f (tab c n g) = tab c n (\<lambda>i j. f (g i j))"
  by (simp add: map_nd_def tab_def comp_def)

lemma ew2_tab: "ew2 f (tab c n g) (tab c n h) = Inr (tab c n (\<lambda>i j. f (g i j) (h i j)))"
  by (auto simp: ew2_def bdim_def bidx_def tab_def shape0_def)

lemma ew1_map: "ew1 f (map u [0..<n]) (map v [0..<n]) = Inr (map (\<lambda>i. f (u i) (v i)) [0..<n])"
  by (auto simp: ew1_def bdim_def bidx_def)

lemma reduce_sum_axis1_tab: "reduce_sum_axis1 (tab c n g) = map (\<lambda>i. vsum (map (g i) [0..<c])) [0..<n]"
  by (simp add: reduce_sum_axis1_def tab_def comp_def)

lemma reduce_mean_axis1_tab: "reduce_mean_axis1 (tab c n g) = map (\<lambda>i. vmean (map (g i) [0..<c])) [0..<n]"
  by (simp add: reduce_mean_axis1_def tab_def comp_def)

lemma vsum_Some: "vsum (map (\<lambda>j. Some (r j)) xs) = Some (\<Sum>j\<leftarrow>xs. r j)"
  by (induction xs) (simp_all add: vsum_def vadd_def vlift2_def)

lemma vmean_Some: "vmean (map (\<lambda>j. Some (r j)) xs) = (if xs = [] then None else Some ((\<Sum>j\<leftarrow>xs. r j) / real (length xs)))"
  using vsum_Some [of r xs] by (simp add: vmean_def vlift2_def)

lemma vsum_Some_upt: "vsum (map (\<lambda>j. Some (r j)) [0..<c]) = Some (\<Sum>j<c. r j)"
  by (simp add: vsum_Some interv_sum_list_conv_sum_set_nat lessThan_atLeast0)

lemma vmean_Some_upt: "vmean (map (\<lambda>j. Some (r j)) [0..<c]) = (if c = 0 then None else Some ((\<Sum>j<c. r j) / real c))"
  by (simp add: vmean_Some interv_sum_list_conv_sum_set_nat lessThan_atLeast0)

lemma vlog_Some: "0 < x \<Longrightarrow> vlog (Some x) = Some (ln x)"
  by (simp add: vlog_def)

lemma vops_None [simp]:
  "vadd None b = None" "vadd a None = None"
  "vsub None b = None" "vsub a None = None"
  "vmul None b = None" "vmul a None = None"
  "vneg None = None" "vlog None = None"
  by (simp_all add: vadd_def vsub_def vmul_def vneg_def vlog_def vlift2_def split: option.splits)

lemma vsum_None: "xs \<noteq> [] \<Longrightarrow> vsum (map (\<lambda>i. None) xs) = None"
  by (cases xs) (simp_all add: vsum_def)

lemma vmean_Nil [simp]: "vmean [] = None"
  by (simp add: vmean_def)

lemma vmean_None: "vmean (map (\<lambda>i. None) xs) = None"
  by (simp add: vmean_def vsum_None vlift2_def)

lemma vops_Some [simp]:
  "vadd (Some x) (Some y) = Some (x + y)"
  "vsub (Some x) (Some y) = Some (x - y)"
  "vmul (Some x) (Some y) = Some (x * y)"
  "vneg (Some x) = Some (- x)"
  by (simp_all add: vadd_def vsub_def vmul_def vneg_def vlift2_def)

lemma log_reward_tab:
  assumes pos: "\<And>i j. i < n \<Longrightarrow> j < c \<Longrightarrow> 0 < q i j + eps"
  shows "log_reward (tab c n (\<lambda>i j. Some (y i j))) (tab c n (\<lambda>i j. Some (q i j)))
       = Inr (map (\<lambda>i. Some (\<Sum>j<c. y i j * ln (q i j + eps))) [0..<n])"
proof -
  have "tab c n (\<lambda>i j. vmul (Some (y i j)) (vlog (vadd (Some (q i j)) (Some eps))))
      = tab c n (\<lambda>i j. Some (y i j * ln (q i j + eps)))"
    by (rule tab_cong) (simp add: vlog_Some pos)
  then show ?thesis
    by (simp only: log_reward_def plus_eps_def map_nd_tab ew2_tab bnd_Inr reduce_sum_axis1_tab vsum_Some_upt)
qed

lemma log_likelihood_tab:
  assumes pos: "\<And>i j. i < n \<Longrightarrow> j < c \<Longrightarrow> 0 < p i j + eps \<and> 0 < 1 - p i j + eps"
  shows "log_likelihood (tab c n (\<lambda>i j. Some (s i j))) (tab c n (\<lambda>i j. Some (p i j)))
       = Inr (map (\<lambda>i. Some (\<Sum>j<c. s i j * ln (p i j + eps) + (1 - s i j) * ln (1 - p i j + eps))) [0..<n])"
proof -
  have "tab c n (\<lambda>i j. vadd (vmul (Some (s i j)) (vlog (vadd (Some (p i j)) (Some eps))))
                            (vmul (vsub (Some 1) (Some (s i j)))
                                  (vlog (vadd (vsub (Some 1) (Some (p i j))) (Some eps)))))
      = tab c n (\<lambda>i j. Some (s i j * ln (p i j + eps) + (1 - s i j) * ln (1 - p i j + eps)))"
    by (rule tab_cong) (simp add: vlog_Some pos)
  then show ?thesis
    by (simp only: log_likelihood_def plus_eps_def one_minus_plus_eps_def map_nd_tab ew2_tab bnd_Inr reduce_sum_axis1_tab vsum_Some_upt)
qed

lemma my_loss_tab:
  assumes dis: "\<And>i j. i < n \<Longrightarrow> j < 2 \<Longrightarrow> 0 < t i (d + j) + eps"
    and val: "\<And>i j. i < n \<Longrightarrow> j < 2 \<Longrightarrow> 0 < t i (d + 2 + j) + eps"
    and pred: "\<And>i j. i < n \<Longrightarrow> j < d \<Longrightarrow> 0 < p i j + eps \<and> 0 < 1 - p i j + eps"
  shows "my_loss self (tab (d + 6) n (\<lambda>i j. Some (t i j))) (tab d n (\<lambda>i j. Some (p i j))) =
    Inr (if n = 0 \<or> d = 0 then None
         else Some (- ((\<Sum>i<n.
                ((\<Sum>c<2. t i (d + 4 + c) * ln (t i (d + c) + eps))
                 - (\<Sum>c<2. t i (d + 4 + c) * ln (t i (d + 2 + c) + eps)))
                * (\<Sum>j<d. t i j * ln (p i j + eps) + (1 - t i j) * ln (1 - p i j + eps))
                - tau self * ((\<Sum>j<d. p i j) / real d)) / real n)))"
proof -
  have R: "Reward_of d (tab (d + 6) n (\<lambda>i j. Some (t i j))) =
      Inr (map (\<lambda>i. Some ((\<Sum>c<2. t i (d + 4 + c) * ln (t i (d + c) + eps))
                 - (\<Sum>c<2. t i (d + 4 + c) * ln (t i (d + 2 + c) + eps)))) [0..<n])"
    using dis val
    by (simp add: Reward_of_def Reward1_of_def Reward2_of_def y_final_of_def dis_prob_of_def val_prob_of_def slice_cols_tab
        slice_from_tab log_reward_tab ew1_map add.assoc)
  have L: "log_likelihood (sel_prob_of d (tab (d + 6) n (\<lambda>i j. Some (t i j)))) (tab d n (\<lambda>i j. Some (p i j)))
     = Inr (map (\<lambda>i. Some (\<Sum>j<d. t i j * ln (p i j + eps) + (1 - t i j) * ln (1 - p i j + eps))) [0..<n])"
    using pred by (simp add: sel_prob_of_def slice_cols_tab log_likelihood_tab)
  show ?thesis
  proof (cases "d = 0")
    case True
    then show ?thesis
      using R L
      by (simp add: my_loss_def Let_def ew1_map reduce_mean_axis1_tab vmean_Some_upt
          reduce_mean_def comp_def vmean_None del: upt_0)
  next
    case False
    then show ?thesis
      using R L
      by (simp add: my_loss_def Let_def ew1_map reduce_mean_axis1_tab vmean_Some_upt
          reduce_mean_def comp_def sum_subtractf diff_divide_distrib del: upt_0)
  qed
qed

lemma all_entries_tab: "all_entries P (tab c n g) = (\<forall>i<n. \<forall>j<c. P (g i j))"
  by (auto simp: all_entries_def tab_def list_all_iff)

lemma entry_tab: "i < n \<Longrightarrow> j < c \<Longrightarrow> entry (tab c n (\<lambda>i j. Some (t i j))) i j = t i j"
  by (simp add: entry_def tab_def)

lemma finite_tab:
  assumes "well_formed a" "all_entries is_finite a"
  shows "a = tab (ncol a) (shape0 a) (\<lambda>i j. Some (entry a i j))"
proof -
  have a: "a = tab (ncol a) (shape0 a) (\<lambda>i j. rows a ! i ! j)"
    using assms(1) by (rule well_formed_tab)
  have "all_entries is_finite (tab (ncol a) (shape0 a) (\<lambda>i j. rows a ! i ! j))"
    using assms(2) a by simp
  then have "\<And>i j. i < shape0 a \<Longrightarrow> j < ncol a \<Longrightarrow> rows a ! i ! j = Some (entry a i j)"
    by (auto simp: all_entries_tab is_finite_def entry_def)
  then have "tab (ncol a) (shape0 a) (\<lambda>i j. rows a ! i ! j) = tab (ncol a) (shape0 a) (\<lambda>i j. Some (entry a i j))"
    by (intro tab_cong) simp
  with a show ?thesis by simp
qed

lemma in_closed_finite: "in_closed lb ub v \<Longrightarrow> is_finite v"
  by (simp add: in_closed_def is_finite_def split: option.splits)

lemma all_entries_mono: "(\<And>v. P v \<Longrightarrow> Q v) \<Longrightarrow> all_entries P a \<Longrightarrow> all_entries Q a"
  by (auto simp: all_entries_def list_all_iff)

lemma positive_plus_finite: "positive (vadd v w) \<Longrightarrow> is_finite v"
  by (cases v) (simp_all add: positive_def is_finite_def)

lemma eps_pos: "0 < eps"
  by (simp add: eps_def)

lemma my_loss_spec:
  assumes wt: "well_formed y_true" and wp: "well_formed y_pred"
    and width: "ncol y_true = ncol y_pred + 6"
    and height: "shape0 y_true = shape0 y_pred"
    and fin: "all_entries is_finite y_true"
    and dis: "all_entries positive (plus_eps (dis_prob_of (ncol y_pred) y_true))"
    and val: "all_entries positive (plus_eps (val_prob_of (ncol y_pred) y_true))"
    and p1: "all_entries positive (plus_eps y_pred)"
    and p2: "all_entries positive (one_minus_plus_eps y_pred)"
  shows "my_loss self y_true y_pred = Inr (spec_loss (tau self) y_true y_pred)"
proof -
  define d where "d = ncol y_pred"
  define n where "n = shape0 y_pred"
  define t where "t = entry y_true"
  define p where "p = entry y_pred"
  have fp: "all_entries is_finite y_pred"
    using p1 by (auto simp: all_entries_def plus_eps_def map_nd_def list_all_iff dest: positive_plus_finite)
  have T: "y_true = tab (d + 6) n (\<lambda>i j. Some (t i j))"
    using finite_tab [OF wt fin] by (simp add: d_def n_def t_def width height)
  have P: "y_pred = tab d n (\<lambda>i j. Some (p i j))"
    using finite_tab [OF wp fp] by (simp add: d_def n_def p_def)
  have 1: "\<And>i j. i < n \<Longrightarrow> j < 2 \<Longrightarrow> 0 < t i (d + j) + eps"
    using dis unfolding d_def [symmetric]
    by (subst (asm) T) (simp add: dis_prob_of_def plus_eps_def slice_cols_tab map_nd_tab all_entries_tab positive_def)
  have 2: "\<And>i j. i < n \<Longrightarrow> j < 2 \<Longrightarrow> 0 < t i (d + 2 + j) + eps"
    using val unfolding d_def [symmetric]
    by (subst (asm) T) (simp add: val_prob_of_def plus_eps_def slice_cols_tab map_nd_tab all_entries_tab positive_def)
  have 3: "\<And>i j. i < n \<Longrightarrow> j < d \<Longrightarrow> 0 < p i j + eps \<and> 0 < 1 - p i j + eps"
    using p1 p2
    by (subst (asm) P, subst (asm) P)
       (simp add: plus_eps_def one_minus_plus_eps_def map_nd_tab all_entries_tab positive_def)
  have "my_loss self (tab (d + 6) n (\<lambda>i j. Some (t i j))) (tab d n (\<lambda>i j. Some (p i j)))
      = Inr (spec_loss (tau self) (tab (d + 6) n (\<lambda>i j. Some (t i j))) (tab d n (\<lambda>i j. Some (p i j))))"
    using 1 2 3
    by (subst my_loss_tab [where t = t and p = p and n = n and d = d])
       (simp_all add: spec_loss_def spec_surrogate_def spec_reward_def entry_tab Let_def)
  then show ?thesis using T P by simp
qed

lemma closed_plus_eps: "in_closed 0 1 v \<Longrightarrow> positive (vadd v (Some eps))"
  using eps_pos by (cases v) (simp_all add: in_closed_def positive_def)

lemma closed_one_minus_plus_eps: "in_closed 0 1 v \<Longrightarrow> positive (vadd (vsub (Some 1) v) (Some eps))"
  using eps_pos by (cases v) (simp_all add: in_closed_def positive_def)

lemma open_closed: "in_open eps (1 - eps) v \<Longrightarrow> in_closed 0 1 v"
  using eps_pos by (cases v) (simp_all add: in_closed_def in_open_def)

lemma all_entries_map_nd: "all_entries P (map_nd f a) = all_entries (\<lambda>v. P (f v)) a"
  by (simp add: all_entries_def map_nd_def list_all_iff)

lemma closed_log_args:
  assumes "all_entries (in_closed 0 1) a"
  shows "all_entries positive (plus_eps a)" "all_entries positive (one_minus_plus_eps a)"
  using assms
  by (auto simp: plus_eps_def one_minus_plus_eps_def all_entries_map_nd
      intro: closed_plus_eps closed_one_minus_plus_eps elim: all_entries_mono [rotated])

lemma sum_lessThan_2: "(\<Sum>c<2. f c) = f 0 + f (1::nat)"
  by (simp add: eval_nat_numeral)

lemma spec_eval:
  "spec_loss (1 / 10)
      \<lparr>ncol = 7, rows = [[Some 1, Some (1 / 2), Some (1 / 2), Some (1 / 4), Some (3 / 4), Some 1, Some 0]]\<rparr>
      \<lparr>ncol = 1, rows = [[Some (1 / 2)]]\<rparr>
   = Some (- ((ln (1 / 2 + eps) - ln (1 / 4 + eps)) * ln (1 / 2 + eps) - 1 / 20))"
  by (simp add: spec_loss_def spec_surrogate_def spec_reward_def entry_def shape0_def sum_lessThan_2)

lemma spec_loss_finite: "0 < shape0 y_pred \<Longrightarrow> 0 < ncol y_pred \<Longrightarrow> \<exists>v. spec_loss t y_true y_pred = Some v"
  by (simp add: spec_loss_def Let_def)

lemma shape0_slices [simp]:
  "shape0 (slice_cols lo hi a) = shape0 a"
  "shape0 (slice_from lo a) = shape0 a"
  "shape0 (map_nd f a) = shape0 a"
  by (simp_all add: shape0_def slice_cols_def slice_from_def map_nd_def)

lemma bdim_same [simp]: "bdim n n = Some n"
  by (simp add: bdim_def)

lemma log_reward_length:
  assumes "log_reward a b = Inr r" and "shape0 a = shape0 b"
  shows "length r = shape0 a"
  using assms
  by (auto simp: log_reward_def ew2_def reduce_sum_axis1_def plus_eps_def shape0_def [of "map_nd f x" for f x]
      split: option.splits)

lemma ew1_pointwise:
  assumes "length r1 = n" "length r2 = n" "length s1 = n" "length s2 = n"
    and "\<And>i. i < n \<Longrightarrow> f (r1 ! i) (r2 ! i) = f (s1 ! i) (s2 ! i)"
  shows "ew1 f r1 r2 = ew1 f s1 s2"
  using assms by (auto simp: ew1_def bidx_def)

lemmas eval_defs = Reward1_of_def Reward2_of_def log_reward_def y_final_of_def dis_prob_of_def
  val_prob_of_def sel_prob_of_def slice_cols_def slice_from_def plus_eps_def map_nd_def ew2_def
  bdim_def bidx_def shape0_def shape1_def reduce_sum_axis1_def vsum_def vlog_def eps_def

lemma upt2: "[0..<2] = [0, 1]"
  by (simp add: upt_rec)

lemma my_loss_empty:
  "my_loss self \<lparr>ncol = ncol y_pred + 6, rows = []\<rparr> (y_pred\<lparr>rows := []\<rparr>) = Inr None"
  using my_loss_spec [of "\<lparr>ncol = ncol y_pred + 6, rows = []\<rparr>" "y_pred\<lparr>rows := []\<rparr>" self]
  by (simp add: well_formed_def shape0_def all_entries_def plus_eps_def one_minus_plus_eps_def
      map_nd_def dis_prob_of_def val_prob_of_def slice_cols_def spec_loss_def)

text \<open>
  C1. For a composite target of width \<open>d + 6\<close> and a selector output of width \<open>d\<close> on the
  same examples, with finite entries and the predictor's, the baseline's and the
  selector's probabilities in \<open>[0, 1]\<close>, \<open>my_loss\<close> raises nothing and returns the negative
  mean over the examples of
  \<open>reward[i] * sum_j [sel_prob[i,j] * log(y_pred[i,j] + 1e-8) + (1 - sel_prob[i,j]) * log(1 - y_pred[i,j] + 1e-8)] - 0.1 * mean_j(y_pred[i,j])\<close>,
  with
  \<open>reward[i] = sum_c y_final[i,c] * log(dis_prob[i,c] + 1e-8) - sum_c y_final[i,c] * log(val_prob[i,c] + 1e-8)\<close>
  and \<open>sel_prob\<close>, \<open>dis_prob\<close>, \<open>val_prob\<close>, \<open>y_final\<close> the columns \<open>[0, d)\<close>, \<open>[d, d + 2)\<close>,
  \<open>[d + 2, d + 4)\<close>, \<open>[d + 4, d + 6)\<close> of the target. The weight 0.1 is the attribute
  \<open>tau\<close> that \<open>__init__\<close> sets. On a batch of no examples, or for \<open>d = 0\<close>, the mean is of
  no numbers and the value is not a number, in the code as in the formula.
\<close>

theorem my_loss_formula:
  assumes "well_formed y_true" and "well_formed y_pred"
    and "ncol y_true = ncol y_pred + 6"
    and "shape0 y_true = shape0 y_pred"
    and "tau self = 1 / 10"
    and "all_entries is_finite y_true"
    and "all_entries (in_closed 0 1) (dis_prob_of (ncol y_pred) y_true)"
    and "all_entries (in_closed 0 1) (val_prob_of (ncol y_pred) y_true)"
    and "all_entries (in_closed 0 1) y_pred"
  shows "my_loss self y_true y_pred = Inr (spec_loss (1 / 10) y_true y_pred)"
proof -
  have "my_loss self y_true y_pred = Inr (spec_loss (tau self) y_true y_pred)"
    using assms(1-4,6) closed_log_args(1) [OF assms(7)] closed_log_args(1) [OF assms(8)]
      closed_log_args [OF assms(9)]
    by (rule my_loss_spec)
  then show ?thesis by (simp only: assms(5))
qed

theorem my_loss_formula_witness:
  "my_loss self_one
      \<lparr>ncol = 7, rows = [[Some 1, Some (1 / 2), Some (1 / 2), Some (1 / 4), Some (3 / 4), Some 1, Some 0]]\<rparr>
      \<lparr>ncol = 1, rows = [[Some (1 / 2)]]\<rparr>
   = Inr (Some (- ((ln (1 / 2 + eps) - ln (1 / 4 + eps)) * ln (1 / 2 + eps) - 1 / 20)))"
  (is "my_loss ?self ?Y ?P = _")
proof -
  have 1: "well_formed ?Y" "well_formed ?P"
    by (simp_all add: well_formed_def)
  have 2: "ncol ?Y = ncol ?P + 6" "shape0 ?Y = shape0 ?P"
    by (simp_all add: shape0_def)
  have 3: "tau ?self = 1 / 10"
    by (simp add: self_one_def INVASE_init_def Let_def)
  have 4: "all_entries is_finite ?Y"
    by (simp add: all_entries_def is_finite_def)
  have 5: "all_entries (in_closed 0 1) (dis_prob_of (ncol ?P) ?Y)"
      "all_entries (in_closed 0 1) (val_prob_of (ncol ?P) ?Y)"
      "all_entries (in_closed 0 1) ?P"
    by (simp_all add: all_entries_def in_closed_def dis_prob_of_def val_prob_of_def slice_cols_def)
  show ?thesis
    using my_loss_formula [OF 1 2 3 4 5] by (simp only: spec_eval)
qed

text \<open>
  C6. The loss depends on the two rewards through their difference only: two composite
  targets whose \<open>Reward1\<close> and \<open>Reward2\<close> are computed, with the same difference
  \<open>Reward1[i] - Reward2[i]\<close> at every example and the same \<open>sel_prob\<close> columns, give the
  same loss on the same selector output (whatever the label columns are, once the
  difference is the same).
\<close>

theorem my_loss_reward_difference:
  assumes "Reward1_of (shape1 y_pred) y_true = Inr r1"
    and "Reward2_of (shape1 y_pred) y_true = Inr r2"
    and "Reward1_of (shape1 y_pred) y_true' = Inr r1'"
    and "Reward2_of (shape1 y_pred) y_true' = Inr r2'"
    and "\<forall>i<shape0 y_true. vsub (r1 ! i) (r2 ! i) = vsub (r1' ! i) (r2' ! i)"
    and "sel_prob_of (shape1 y_pred) y_true = sel_prob_of (shape1 y_pred) y_true'"
  shows "my_loss self y_true y_pred = my_loss self y_true' y_pred"
proof -
  let ?d = "shape1 y_pred"
  have n: "shape0 y_true' = shape0 y_true"
    using arg_cong [OF assms(6), of shape0] by (simp add: sel_prob_of_def)
  have l: "length r1 = shape0 y_true" "length r2 = shape0 y_true"
      "length r1' = shape0 y_true" "length r2' = shape0 y_true"
    using assms(1-4) n
    by (auto simp: Reward1_of_def Reward2_of_def y_final_of_def dis_prob_of_def val_prob_of_def
        dest!: log_reward_length)
  have "ew1 vsub r1 r2 = ew1 vsub r1' r2'"
    using l assms(5) by (intro ew1_pointwise [where n = "shape0 y_true"]) simp_all
  then have "Reward_of ?d y_true = Reward_of ?d y_true'"
    by (simp add: Reward_of_def assms(1-4))
  then show ?thesis
    by (simp add: my_loss_def Let_def assms(6))
qed

theorem my_loss_reward_difference_witness:
  "my_loss self_one
      \<lparr>ncol = 7, rows = [[Some 1, Some (1 / 2), Some (1 / 2), Some (1 / 2), Some (1 / 2), Some 1, Some 0]]\<rparr>
      \<lparr>ncol = 1, rows = [[Some (1 / 3)]]\<rparr>
   = my_loss self_one
      \<lparr>ncol = 7, rows = [[Some 1, Some (1 / 4), Some (3 / 4), Some (1 / 4), Some (3 / 4), Some 1, Some 0]]\<rparr>
      \<lparr>ncol = 1, rows = [[Some (1 / 3)]]\<rparr>"
  (is "my_loss ?self ?Y ?P = my_loss ?self ?Y' ?P")
proof -
  have 1: "Reward1_of (shape1 ?P) ?Y = Inr [Some (ln (1 / 2 + eps))]"
    by (simp add: eval_defs upt2)
  have 2: "Reward2_of (shape1 ?P) ?Y = Inr [Some (ln (1 / 2 + eps))]"
    by (simp add: eval_defs upt2)
  have 3: "Reward1_of (shape1 ?P) ?Y' = Inr [Some (ln (1 / 4 + eps))]"
    by (simp add: eval_defs upt2)
  have 4: "Reward2_of (shape1 ?P) ?Y' = Inr [Some (ln (1 / 4 + eps))]"
    by (simp add: eval_defs upt2)
  have 5: "\<forall>i<shape0 ?Y. vsub ([Some (ln (1 / 2 + eps))] ! i) ([Some (ln (1 / 2 + eps))] ! i)
              = vsub ([Some (ln (1 / 4 + eps))] ! i) ([Some (ln (1 / 4 + eps))] ! i)"
    by (simp add: shape0_def)
  have 6: "sel_prob_of (shape1 ?P) ?Y = sel_prob_of (shape1 ?P) ?Y'"
    by (simp add: eval_defs)
  show ?thesis
    using 1 2 3 4 5 6 by (rule my_loss_reward_difference)
qed

text \<open>Bounds for probabilities away from 0 and 1: an entry strictly between \<open>1e-8\<close> and
  \<open>1 - 1e-8\<close> has both logarithms of \<open>my_loss\<close> within \<open>ln 1e8\<close> of 0, and sums and
  means of bounded terms are bounded.\<close>

lemma slice_cols_entry:
  assumes "well_formed a" "all_entries P (slice_cols lo hi a)"
    and "i < shape0 a" "lo \<le> j" "j < hi" "j < ncol a"
  shows "P (rows a ! i ! j)"
proof -
  have "all_entries P (slice_cols lo hi (tab (ncol a) (shape0 a) (\<lambda>i j. rows a ! i ! j)))"
    using assms(2) well_formed_tab [OF assms(1)] by simp
  then have "\<forall>i<shape0 a. \<forall>k<min hi (ncol a) - min lo (ncol a). P (rows a ! i ! (lo + k))"
    by (simp add: slice_cols_tab all_entries_tab)
  moreover have "j - lo < min hi (ncol a) - min lo (ncol a)"
    using assms(4-6) by (auto simp: min_def)
  ultimately have "P (rows a ! i ! (lo + (j - lo)))"
    using assms(3) by blast
  then show ?thesis
    using assms(4) by simp
qed

lemma slice_from_entry:
  assumes "well_formed a" "all_entries P (slice_from lo a)"
    and "i < shape0 a" "lo \<le> j" "j < ncol a"
  shows "P (rows a ! i ! j)"
proof -
  have "all_entries P (slice_from lo (tab (ncol a) (shape0 a) (\<lambda>i j. rows a ! i ! j)))"
    using assms(2) well_formed_tab [OF assms(1)] by simp
  then have "\<forall>i<shape0 a. \<forall>k<ncol a - lo. P (rows a ! i ! (lo + k))"
    by (simp add: slice_from_tab all_entries_tab)
  moreover have "j - lo < ncol a - lo"
    using assms(4,5) by auto
  ultimately have "P (rows a ! i ! (lo + (j - lo)))"
    using assms(3) by blast
  then show ?thesis
    using assms(4) by simp
qed

lemma whole_entry:
  assumes "well_formed a" "all_entries P a" "i < shape0 a" "j < ncol a"
  shows "P (rows a ! i ! j)"
proof -
  have "all_entries P (tab (ncol a) (shape0 a) (\<lambda>i j. rows a ! i ! j))"
    using assms(2) well_formed_tab [OF assms(1)] by simp
  then show ?thesis
    using assms(3,4) by (simp add: all_entries_tab)
qed

lemma all_entries_whole:
  assumes "well_formed a" "\<And>i j. i < shape0 a \<Longrightarrow> j < ncol a \<Longrightarrow> P (rows a ! i ! j)"
  shows "all_entries P a"
proof -
  have "all_entries P (tab (ncol a) (shape0 a) (\<lambda>i j. rows a ! i ! j))"
    using assms(2) by (simp add: all_entries_tab)
  then show ?thesis
    using well_formed_tab [OF assms(1)] by simp
qed

lemma in_open_entry: "in_open lb ub (rows a ! i ! j) \<Longrightarrow> lb < entry a i j \<and> entry a i j < ub \<and> is_finite (rows a ! i ! j)"
  by (cases "rows a ! i ! j") (simp_all add: in_open_def entry_def is_finite_def)

lemma binary_entry: "rows a ! i ! j = Some 0 \<or> rows a ! i ! j = Some 1 \<Longrightarrow> (entry a i j = 0 \<or> entry a i j = 1) \<and> is_finite (rows a ! i ! j)"
  by (auto simp: entry_def is_finite_def)

lemma ln_eps: "ln eps = - ln (10 ^ 8)"
  by (simp add: eps_def ln_div)

lemma log_bound:
  assumes "eps < x" "x < 1 - eps"
  shows "\<bar>ln (x + eps)\<bar> \<le> ln (10 ^ 8)" "\<bar>ln (1 - x + eps)\<bar> \<le> ln (10 ^ 8)"
proof -
  have e: "0 < eps" by (rule eps_pos)
  have "ln eps \<le> ln (x + eps)" "ln (x + eps) \<le> ln 1"
    using assms e by (simp_all del: ln_one)
  then show "\<bar>ln (x + eps)\<bar> \<le> ln (10 ^ 8)"
    by (simp add: ln_eps)
  have "ln eps \<le> ln (1 - x + eps)" "ln (1 - x + eps) \<le> ln 1"
    using assms e by (simp_all del: ln_one)
  then show "\<bar>ln (1 - x + eps)\<bar> \<le> ln (10 ^ 8)"
    by (simp add: ln_eps)
qed

lemma M_nonneg: "0 \<le> ln ((10::real) ^ 8)"
  by simp

lemma term_bound:
  fixes y l M :: real
  assumes "y = 0 \<or> y = 1" "\<bar>l\<bar> \<le> M"
  shows "\<bar>y * l\<bar> \<le> M"
  using assms by auto

lemma mix_bound:
  fixes s a b M :: real
  assumes "0 \<le> s" "s \<le> 1" "\<bar>a\<bar> \<le> M" "\<bar>b\<bar> \<le> M"
  shows "\<bar>s * a + (1 - s) * b\<bar> \<le> M"
proof -
  have "\<bar>s * a + (1 - s) * b\<bar> \<le> \<bar>s * a\<bar> + \<bar>(1 - s) * b\<bar>"
    by (rule abs_triangle_ineq)
  also have "\<dots> = s * \<bar>a\<bar> + (1 - s) * \<bar>b\<bar>"
    using assms(1,2) by (simp add: abs_mult)
  also have "\<dots> \<le> s * M + (1 - s) * M"
    using assms by (intro add_mono mult_left_mono) simp_all
  also have "\<dots> = M"
    by (simp add: algebra_simps)
  finally show ?thesis .
qed

lemma sum_abs_bound:
  fixes f :: "nat \<Rightarrow> real"
  assumes "\<And>i. i < n \<Longrightarrow> \<bar>f i\<bar> \<le> B"
  shows "\<bar>\<Sum>i<n. f i\<bar> \<le> real n * B"
proof -
  have "\<bar>\<Sum>i<n. f i\<bar> \<le> (\<Sum>i<n. \<bar>f i\<bar>)"
    by (rule sum_abs)
  also have "\<dots> \<le> (\<Sum>i<n. B)"
    using assms by (intro sum_mono) simp
  finally show ?thesis by simp
qed

lemma mean_abs_bound:
  fixes f :: "nat \<Rightarrow> real"
  assumes "0 < n" "\<And>i. i < n \<Longrightarrow> \<bar>f i\<bar> \<le> B"
  shows "\<bar>(\<Sum>i<n. f i) / real n\<bar> \<le> B"
proof -
  have "\<bar>\<Sum>i<n. f i\<bar> \<le> real n * B"
    using assms(2) by (rule sum_abs_bound)
  then have "\<bar>\<Sum>i<n. f i\<bar> / real n \<le> B"
    using assms(1) by (simp add: pos_divide_le_eq mult.commute)
  then show ?thesis
    by simp
qed

lemma spec_loss_bound:
  assumes n: "0 < shape0 y_pred" and d: "0 < ncol y_pred"
    and sel: "\<And>i j. i < shape0 y_pred \<Longrightarrow> j < ncol y_pred \<Longrightarrow> 0 \<le> entry y_true i j \<and> entry y_true i j \<le> 1"
    and lab: "\<And>i c. i < shape0 y_pred \<Longrightarrow> c < 2 \<Longrightarrow>
        entry y_true i (ncol y_pred + 4 + c) = 0 \<or> entry y_true i (ncol y_pred + 4 + c) = 1"
    and dis: "\<And>i c. i < shape0 y_pred \<Longrightarrow> c < 2 \<Longrightarrow>
        \<bar>ln (entry y_true i (ncol y_pred + c) + eps)\<bar> \<le> M"
    and val: "\<And>i c. i < shape0 y_pred \<Longrightarrow> c < 2 \<Longrightarrow>
        \<bar>ln (entry y_true i (ncol y_pred + 2 + c) + eps)\<bar> \<le> M"
    and p1: "\<And>i j. i < shape0 y_pred \<Longrightarrow> j < ncol y_pred \<Longrightarrow> \<bar>ln (entry y_pred i j + eps)\<bar> \<le> M"
    and p2: "\<And>i j. i < shape0 y_pred \<Longrightarrow> j < ncol y_pred \<Longrightarrow> \<bar>ln (1 - entry y_pred i j + eps)\<bar> \<le> M"
    and p3: "\<And>i j. i < shape0 y_pred \<Longrightarrow> j < ncol y_pred \<Longrightarrow> \<bar>entry y_pred i j\<bar> \<le> 1"
  shows "\<exists>v. spec_loss t y_true y_pred = Some v \<and> \<bar>v\<bar> \<le> 4 * real (ncol y_pred) * M\<^sup>2 + \<bar>t\<bar>"
proof -
  let ?d = "ncol y_pred" and ?n = "shape0 y_pred"
  have M: "0 \<le> M"
    using p1 [OF n d] by linarith
  have S: "\<bar>spec_surrogate t ?d y_true y_pred i\<bar> \<le> 4 * real ?d * M\<^sup>2 + \<bar>t\<bar>" if i: "i < ?n" for i
  proof -
    have r1: "\<bar>\<Sum>c<2. entry y_true i (?d + 4 + c) * ln (entry y_true i (?d + c) + eps)\<bar> \<le> real 2 * M"
      using lab [OF i] dis [OF i] by (intro sum_abs_bound term_bound) simp_all
    have r2: "\<bar>\<Sum>c<2. entry y_true i (?d + 4 + c) * ln (entry y_true i (?d + 2 + c) + eps)\<bar> \<le> real 2 * M"
      using lab [OF i] val [OF i] by (intro sum_abs_bound term_bound) simp_all
    have R: "\<bar>spec_reward ?d y_true i\<bar> \<le> 4 * M"
      unfolding spec_reward_def using r1 r2 by linarith
    have Lb: "\<bar>\<Sum>j<?d. entry y_true i j * ln (entry y_pred i j + eps)
                 + (1 - entry y_true i j) * ln (1 - entry y_pred i j + eps)\<bar> \<le> real ?d * M"
      (is "\<bar>?L\<bar> \<le> _")
      using sel [OF i] p1 [OF i] p2 [OF i] by (intro sum_abs_bound mix_bound) simp_all
    have Pm: "\<bar>(\<Sum>j<?d. entry y_pred i j) / real ?d\<bar> \<le> 1"
      using d p3 [OF i] by (intro mean_abs_bound) simp_all
    have "\<bar>spec_reward ?d y_true i * ?L\<bar> \<le> (4 * M) * (real ?d * M)"
      unfolding abs_mult using R Lb by (intro mult_mono) simp_all
    moreover have "\<bar>t * ((\<Sum>j<?d. entry y_pred i j) / real ?d)\<bar> \<le> \<bar>t\<bar> * 1"
      unfolding abs_mult using Pm by (intro mult_left_mono) simp_all
    ultimately have "\<bar>spec_reward ?d y_true i * ?L - t * ((\<Sum>j<?d. entry y_pred i j) / real ?d)\<bar>
        \<le> (4 * M) * (real ?d * M) + \<bar>t\<bar>"
      by linarith
    then show ?thesis
      by (simp add: spec_surrogate_def power2_eq_square algebra_simps)
  qed
  have "\<bar>(\<Sum>i<?n. spec_surrogate t ?d y_true y_pred i) / real ?n\<bar> \<le> 4 * real ?d * M\<^sup>2 + \<bar>t\<bar>"
    using n S by (rule mean_abs_bound)
  then show ?thesis
    using n d by (simp add: spec_loss_def Let_def)
qed

lemma open_entry_bounds:
  assumes "in_open eps (1 - eps) (rows a ! i ! j)"
  shows "\<bar>ln (entry a i j + eps)\<bar> \<le> ln (10 ^ 8)"
    and "\<bar>ln (1 - entry a i j + eps)\<bar> \<le> ln (10 ^ 8)"
    and "0 \<le> entry a i j \<and> entry a i j \<le> 1"
    and "\<bar>entry a i j\<bar> \<le> 1"
proof -
  have b: "eps < entry a i j" "entry a i j < 1 - eps"
    using in_open_entry [OF assms] by blast+
  show "\<bar>ln (entry a i j + eps)\<bar> \<le> ln (10 ^ 8)"
    using b by (rule log_bound(1))
  show "\<bar>ln (1 - entry a i j + eps)\<bar> \<le> ln (10 ^ 8)"
    using b by (rule log_bound(2))
  have e: "0 < eps" by (rule eps_pos)
  show "0 \<le> entry a i j \<and> entry a i j \<le> 1"
    using b e by linarith
  then show "\<bar>entry a i j\<bar> \<le> 1"
    by linarith
qed

text \<open>
  C7, as stated, fails in two ways. On a batch of no examples every entry (there is
  none) is within the bounds, and the loss is the mean of no numbers, which is not a
  number. On a batch of one example and no feature (a composite target of width 6 and a
  selector output of width 0) every probability is within the bounds, and the sparsity
  term is the mean over no features, again not a number; so is the loss.
\<close>

theorem my_loss_empty_batch_counterexample:
  "well_formed \<lparr>ncol = 7, rows = []\<rparr> \<and> well_formed \<lparr>ncol = 1, rows = []\<rparr>
   \<and> ncol \<lparr>ncol = 7, rows = []\<rparr> = ncol \<lparr>ncol = 1, rows = []\<rparr> + 6
   \<and> shape0 \<lparr>ncol = 7, rows = []\<rparr> = shape0 \<lparr>ncol = 1, rows = []\<rparr>
   \<and> all_entries (in_open eps (1 - eps)) \<lparr>ncol = 7, rows = []\<rparr>
   \<and> all_entries (in_open eps (1 - eps)) \<lparr>ncol = 1, rows = []\<rparr>
   \<and> my_loss self_one \<lparr>ncol = 7, rows = []\<rparr> \<lparr>ncol = 1, rows = []\<rparr> = Inr None
   \<and> well_formed \<lparr>ncol = 6, rows = [[Some (1 / 2), Some (1 / 2), Some (1 / 2), Some (1 / 2), Some 1, Some 0]]\<rparr>
   \<and> well_formed \<lparr>ncol = 0, rows = [[]]\<rparr>
   \<and> ncol \<lparr>ncol = 6, rows = [[Some (1 / 2), Some (1 / 2), Some (1 / 2), Some (1 / 2), Some 1, Some 0]]\<rparr>
       = ncol \<lparr>ncol = 0, rows = [[]]\<rparr> + 6
   \<and> shape0 \<lparr>ncol = 6, rows = [[Some (1 / 2), Some (1 / 2), Some (1 / 2), Some (1 / 2), Some 1, Some 0]]\<rparr>
       = shape0 \<lparr>ncol = 0, rows = [[]]\<rparr>
   \<and> shape0 \<lparr>ncol = 0, rows = [[]]\<rparr> = 1
   \<and> all_entries (in_open eps (1 - eps))
        (sel_prob_of 0 \<lparr>ncol = 6, rows = [[Some (1 / 2), Some (1 / 2), Some (1 / 2), Some (1 / 2), Some 1, Some 0]]\<rparr>)
   \<and> all_entries (in_open eps (1 - eps))
        (dis_prob_of 0 \<lparr>ncol = 6, rows = [[Some (1 / 2), Some (1 / 2), Some (1 / 2), Some (1 / 2), Some 1, Some 0]]\<rparr>)
   \<and> all_entries (in_open eps (1 - eps))
        (val_prob_of 0 \<lparr>ncol = 6, rows = [[Some (1 / 2), Some (1 / 2), Some (1 / 2), Some (1 / 2), Some 1, Some 0]]\<rparr>)
   \<and> all_entries (in_open eps (1 - eps)) \<lparr>ncol = 0, rows = [[]]\<rparr>
   \<and> my_loss self_one
        \<lparr>ncol = 6, rows = [[Some (1 / 2), Some (1 / 2), Some (1 / 2), Some (1 / 2), Some 1, Some 0]]\<rparr>
        \<lparr>ncol = 0, rows = [[]]\<rparr> = Inr None"
proof -
  have a: "well_formed \<lparr>ncol = 7, rows = []\<rparr> \<and> well_formed \<lparr>ncol = 1, rows = []\<rparr>
   \<and> ncol \<lparr>ncol = 7, rows = []\<rparr> = ncol \<lparr>ncol = 1, rows = []\<rparr> + 6
   \<and> shape0 \<lparr>ncol = 7, rows = []\<rparr> = shape0 \<lparr>ncol = 1, rows = []\<rparr>
   \<and> all_entries (in_open eps (1 - eps)) \<lparr>ncol = 7, rows = []\<rparr>
   \<and> all_entries (in_open eps (1 - eps)) \<lparr>ncol = 1, rows = []\<rparr>
   \<and> my_loss self_one \<lparr>ncol = 7, rows = []\<rparr> \<lparr>ncol = 1, rows = []\<rparr> = Inr None"
    using my_loss_empty [of _ "\<lparr>ncol = 1, rows = []\<rparr>"]
    by (simp add: well_formed_def all_entries_def shape0_def)
  let ?Y = "\<lparr>ncol = 6, rows = [[Some (1 / 2), Some (1 / 2), Some (1 / 2), Some (1 / 2), Some 1, Some (0::real)]]\<rparr>"
  let ?P = "\<lparr>ncol = 0, rows = [[]::val list]\<rparr>"
  have 1: "well_formed ?Y" "well_formed ?P"
    by (simp_all add: well_formed_def)
  have 2: "ncol ?Y = ncol ?P + 6" "shape0 ?Y = shape0 ?P" "shape0 ?P = 1"
    by (simp_all add: shape0_def)
  have 3: "all_entries (in_open eps (1 - eps)) (sel_prob_of 0 ?Y)"
      "all_entries (in_open eps (1 - eps)) (dis_prob_of 0 ?Y)"
      "all_entries (in_open eps (1 - eps)) (val_prob_of 0 ?Y)"
      "all_entries (in_open eps (1 - eps)) ?P"
    by (simp_all add: all_entries_def in_open_def sel_prob_of_def dis_prob_of_def val_prob_of_def
        slice_cols_def eps_def)
  have 4: "all_entries is_finite ?Y"
    by (simp add: all_entries_def is_finite_def)
  have c: "all_entries (in_closed 0 1) (dis_prob_of (ncol ?P) ?Y)"
      "all_entries (in_closed 0 1) (val_prob_of (ncol ?P) ?Y)"
      "all_entries (in_closed 0 1) ?P"
    by (simp_all add: all_entries_def in_closed_def dis_prob_of_def val_prob_of_def slice_cols_def)
  have p: "all_entries positive (plus_eps (dis_prob_of (ncol ?P) ?Y))"
      "all_entries positive (plus_eps (val_prob_of (ncol ?P) ?Y))"
      "all_entries positive (plus_eps ?P)"
      "all_entries positive (one_minus_plus_eps ?P)"
    using c by (simp_all only: closed_log_args)
  have "my_loss self_one ?Y ?P = Inr (spec_loss (tau self_one) ?Y ?P)"
    using 1 2(1,2) 4 p by (rule my_loss_spec)
  then have 5: "my_loss self_one ?Y ?P = Inr None"
    by (simp add: spec_loss_def)
  show ?thesis
    using a 1 2 3 5 by (intro conjI) simp_all
qed

text \<open>
  C7, amended. For a composite target and a selector output on at least one example and
  at least one feature, with the label columns of the target holding 0 or 1 (as the
  one-hot labels of a composite target do) and the selection probabilities, the
  predictor's, the baseline's and the selector's probabilities strictly between \<open>1e-8\<close>
  and \<open>1 - 1e-8\<close>, every argument of a logarithm in \<open>my_loss\<close> is strictly positive,
  \<open>my_loss\<close> raises nothing and the loss is a finite number, of magnitude at most
  \<open>4 * d * (ln 1e8)^2 + 0.1\<close> for \<open>d\<close> features, the weight \<open>tau\<close> being the 0.1 that
  \<open>__init__\<close> sets. The numbers are real numbers; the bound shows that on such inputs
  the loss stays far from the largest 32-bit float.
  Label columns holding other finite numbers are left out: over the real numbers the
  loss is finite for them too, but a 32-bit product of a label near the largest float
  and a logarithm overflows, which real arithmetic does not show.
\<close>

theorem my_loss_finite:
  assumes "well_formed y_true" and "well_formed y_pred"
    and "ncol y_true = ncol y_pred + 6"
    and "shape0 y_true = shape0 y_pred"
    and "all_entries (in_open eps (1 - eps)) (sel_prob_of (ncol y_pred) y_true)"
    and "all_entries (in_open eps (1 - eps)) (dis_prob_of (ncol y_pred) y_true)"
    and "all_entries (in_open eps (1 - eps)) (val_prob_of (ncol y_pred) y_true)"
    and "all_entries (\<lambda>v. v = Some 0 \<or> v = Some 1) (y_final_of (ncol y_pred) y_true)"
    and "all_entries (in_open eps (1 - eps)) y_pred"
    and "0 < shape0 y_pred" and "0 < ncol y_pred"
    and "tau self = 1 / 10"
  shows "all_entries positive (plus_eps (dis_prob_of (ncol y_pred) y_true))
       \<and> all_entries positive (plus_eps (val_prob_of (ncol y_pred) y_true))
       \<and> all_entries positive (plus_eps y_pred)
       \<and> all_entries positive (one_minus_plus_eps y_pred)
       \<and> (\<exists>v. my_loss self y_true y_pred = Inr (Some v)
              \<and> \<bar>v\<bar> \<le> 4 * real (ncol y_pred) * (ln (10 ^ 8))\<^sup>2 + 1 / 10)"
proof -
  let ?d = "ncol y_pred" and ?n = "shape0 y_pred"
  have sel: "in_open eps (1 - eps) (rows y_true ! i ! j)" if "i < ?n" "j < ?d" for i j
    using slice_cols_entry [OF assms(1) assms(5) [unfolded sel_prob_of_def], of i j] that assms(3,4)
    by simp
  have dis: "in_open eps (1 - eps) (rows y_true ! i ! (?d + c))" if "i < ?n" "c < 2" for i c
    using slice_cols_entry [OF assms(1) assms(6) [unfolded dis_prob_of_def], of i "?d + c"] that assms(3,4)
    by simp
  have val: "in_open eps (1 - eps) (rows y_true ! i ! (?d + 2 + c))" if "i < ?n" "c < 2" for i c
    using slice_cols_entry [OF assms(1) assms(7) [unfolded val_prob_of_def], of i "?d + 2 + c"] that assms(3,4)
    by simp
  have lab: "rows y_true ! i ! (?d + 4 + c) = Some 0 \<or> rows y_true ! i ! (?d + 4 + c) = Some 1"
    if "i < ?n" "c < 2" for i c
    using slice_from_entry [OF assms(1) assms(8) [unfolded y_final_of_def], of i "?d + 4 + c"] that assms(3,4)
    by simp
  have prd: "in_open eps (1 - eps) (rows y_pred ! i ! j)" if "i < ?n" "j < ?d" for i j
    using whole_entry [OF assms(2,9)] that by simp
  have fin: "all_entries is_finite y_true"
  proof (rule all_entries_whole [OF assms(1)])
    fix i j
    assume i: "i < shape0 y_true" and j: "j < ncol y_true"
    then have i': "i < ?n" and j': "j < ?d + 6"
      using assms(3,4) by simp_all
    consider "j < ?d" | c where "c < 2" "j = ?d + c" | c where "c < 2" "j = ?d + 2 + c"
      | c where "c < 2" "j = ?d + 4 + c"
    proof -
      have "j < ?d \<or> (j - ?d < 2 \<and> j = ?d + (j - ?d)) \<or> (j - (?d + 2) < 2 \<and> j = ?d + 2 + (j - (?d + 2)))
          \<or> (j - (?d + 4) < 2 \<and> j = ?d + 4 + (j - (?d + 4)))"
        using j' by linarith
      then show ?thesis
        using that by blast
    qed
    then show "is_finite (rows y_true ! i ! j)"
    proof cases
      case 1
      then show ?thesis using in_open_entry [OF sel [OF i' 1]] by simp
    next
      case (2 c)
      then show ?thesis using in_open_entry [OF dis [OF i' 2(1)]] by simp
    next
      case (3 c)
      then show ?thesis using in_open_entry [OF val [OF i' 3(1)]] by simp
    next
      case (4 c)
      then show ?thesis using binary_entry [OF lab [OF i' 4(1)]] by simp
    qed
  qed
  have c: "all_entries (in_closed 0 1) (dis_prob_of ?d y_true)"
      "all_entries (in_closed 0 1) (val_prob_of ?d y_true)"
      "all_entries (in_closed 0 1) y_pred"
    using assms(6,7,9) by (auto elim: all_entries_mono [rotated] intro: open_closed)
  have p: "all_entries positive (plus_eps (dis_prob_of ?d y_true))"
      "all_entries positive (plus_eps (val_prob_of ?d y_true))"
      "all_entries positive (plus_eps y_pred)"
      "all_entries positive (one_minus_plus_eps y_pred)"
    using c by (simp_all add: closed_log_args)
  have eq: "my_loss self y_true y_pred = Inr (spec_loss (tau self) y_true y_pred)"
    using assms(1-4) fin p by (rule my_loss_spec)
  have e: "0 < eps" by (rule eps_pos)
  have "\<exists>v. spec_loss (tau self) y_true y_pred = Some v
      \<and> \<bar>v\<bar> \<le> 4 * real ?d * (ln (10 ^ 8))\<^sup>2 + \<bar>tau self\<bar>"
  proof (rule spec_loss_bound [OF assms(10,11)])
    fix i j assume ij: "i < ?n" "j < ?d"
    show "0 \<le> entry y_true i j \<and> entry y_true i j \<le> 1"
      by (rule open_entry_bounds(3) [OF sel [OF ij]])
    show "\<bar>ln (entry y_pred i j + eps)\<bar> \<le> ln (10 ^ 8)"
      by (rule open_entry_bounds(1) [OF prd [OF ij]])
    show "\<bar>ln (1 - entry y_pred i j + eps)\<bar> \<le> ln (10 ^ 8)"
      by (rule open_entry_bounds(2) [OF prd [OF ij]])
    show "\<bar>entry y_pred i j\<bar> \<le> 1"
      by (rule open_entry_bounds(4) [OF prd [OF ij]])
  next
    fix i c :: nat assume ic: "i < ?n" "c < 2"
    show "entry y_true i (?d + 4 + c) = 0 \<or> entry y_true i (?d + 4 + c) = 1"
      using binary_entry [OF lab [OF ic]] by blast
    show "\<bar>ln (entry y_true i (?d + c) + eps)\<bar> \<le> ln (10 ^ 8)"
      by (rule open_entry_bounds(1) [OF dis [OF ic]])
    show "\<bar>ln (entry y_true i (?d + 2 + c) + eps)\<bar> \<le> ln (10 ^ 8)"
      by (rule open_entry_bounds(1) [OF val [OF ic]])
  qed
  then have "\<exists>v. my_loss self y_true y_pred = Inr (Some v)
      \<and> \<bar>v\<bar> \<le> 4 * real ?d * (ln (10 ^ 8))\<^sup>2 + 1 / 10"
    unfolding eq assms(12) by simp
  with p show ?thesis
    by (intro conjI)
qed

theorem my_loss_finite_witness:
  "\<exists>v. my_loss self_one
      \<lparr>ncol = 7, rows = [[Some (1 / 2), Some (1 / 2), Some (1 / 2), Some (1 / 4), Some (3 / 4), Some 1, Some 0]]\<rparr>
      \<lparr>ncol = 1, rows = [[Some (1 / 2)]]\<rparr> = Inr (Some v)
     \<and> \<bar>v\<bar> \<le> 4 * (ln (10 ^ 8))\<^sup>2 + 1 / 10"
  (is "\<exists>v. my_loss ?self ?Y ?P = _ v \<and> _")
proof -
  have 1: "well_formed ?Y" "well_formed ?P"
    by (simp_all add: well_formed_def)
  have 2: "ncol ?Y = ncol ?P + 6" "shape0 ?Y = shape0 ?P"
    by (simp_all add: shape0_def)
  have 5: "all_entries (in_open eps (1 - eps)) (sel_prob_of (ncol ?P) ?Y)"
      "all_entries (in_open eps (1 - eps)) (dis_prob_of (ncol ?P) ?Y)"
      "all_entries (in_open eps (1 - eps)) (val_prob_of (ncol ?P) ?Y)"
    by (simp_all add: all_entries_def in_open_def sel_prob_of_def dis_prob_of_def val_prob_of_def
        slice_cols_def eps_def)
  have 6: "all_entries (\<lambda>v. v = Some 0 \<or> v = Some 1) (y_final_of (ncol ?P) ?Y)"
    by (simp add: all_entries_def y_final_of_def slice_from_def)
  have 7: "all_entries (in_open eps (1 - eps)) ?P"
    by (simp add: all_entries_def in_open_def eps_def)
  have 8: "0 < shape0 ?P" "0 < ncol ?P"
    by (simp_all add: shape0_def)
  have 9: "tau ?self = 1 / 10"
    by (simp add: self_one_def INVASE_init_def Let_def)
  have t: "real (ncol ?P) = 1"
    by simp
  show ?thesis
    using my_loss_finite [OF 1 2 5 6 7 8 9] unfolding t by simp
qed

subsection \<open>The sampler\<close>

lemma valid_p_closed: "valid_p v = in_closed 0 1 v"
  by (simp add: valid_p_def in_closed_def)

lemma snd_enumerate_in: "p \<in> set (enumerate n xs) \<Longrightarrow> snd p \<in> set xs"
  by (metis in_set_zipE enumerate_eq_zip prod.collapse)

lemma all_entries_enumerated:
  assumes "\<And>i j v r. r \<in> set (rows a) \<Longrightarrow> v \<in> set r \<Longrightarrow> Q (f i j v)"
  shows "all_entries Q \<lparr>ncol = c, rows = map (\<lambda>(i, r). map (\<lambda>(j, v). f i j v) (enumerate 0 r)) (enumerate 0 (rows a))\<rparr>"
  using assms by (auto simp: all_entries_def list_all_iff dest!: snd_enumerate_in)

lemma length_enumerated:
  "map length (map (\<lambda>(i, r). map (g i) (enumerate 0 r)) (enumerate 0 rs)) = map length rs"
proof -
  have "map length (map (\<lambda>(i, r). map (g i) (enumerate 0 r)) (enumerate 0 rs))
      = map (\<lambda>p. length (snd p)) (enumerate 0 rs)"
    by (simp add: case_prod_beta comp_def)
  also have "\<dots> = map length (map snd (enumerate 0 rs))"
    by (simp only: map_map comp_def)
  also have "\<dots> = map length rs"
    by (simp only: map_snd_enumerate)
  finally show ?thesis .
qed

lemma bernoulli_binary: "in_closed 0 1 v \<Longrightarrow> bernoulli v x = Some 0 \<or> bernoulli v x = Some 1"
  by (cases v) (simp_all add: bernoulli_def in_closed_def)

lemma bernoulli_zero: "0 \<le> x \<Longrightarrow> bernoulli (Some 0) x = Some 0"
  by (simp add: bernoulli_def)

lemma bernoulli_one: "x < 1 \<Longrightarrow> bernoulli (Some 1) x = Some 1"
  by (simp add: bernoulli_def)

text \<open>
  C8. For a matrix of selection probabilities in \<open>[0, 1]\<close> and every random source (every
  stream of draws from \<open>[0, 1)\<close>), \<open>Sample_M\<close> raises nothing and returns a matrix of the
  same shape (the same two dimensions, and row by row the same lengths) whose entries
  are 0 or 1; on an input of zeros the result is all zeros and on an input of ones all
  ones, whatever the source draws.
\<close>

theorem Sample_M_binary:
  assumes "all_entries (in_closed 0 1) gen_prob" and "rng_ok u"
  shows "\<exists>samples u'. Sample_M gen_prob u = Inr (samples, u')
      \<and> shape0 samples = shape0 gen_prob \<and> shape1 samples = shape1 gen_prob
      \<and> map length (rows samples) = map length (rows gen_prob)
      \<and> all_entries (\<lambda>v. v = Some 0 \<or> v = Some 1) samples
      \<and> (all_entries (\<lambda>v. v = Some 0) gen_prob \<longrightarrow> all_entries (\<lambda>v. v = Some 0) samples)
      \<and> (all_entries (\<lambda>v. v = Some 1) gen_prob \<longrightarrow> all_entries (\<lambda>v. v = Some 1) samples)"
proof -
  let ?d = "shape1 gen_prob"
  let ?rows = "map (\<lambda>(i, r). map (\<lambda>(j, v). bernoulli v (u (i * ?d + j))) (enumerate 0 r))
                 (enumerate 0 (rows gen_prob))"
  let ?s = "\<lparr>ncol = ?d, rows = ?rows\<rparr>"
  have v: "list_all (list_all valid_p) (rows gen_prob)"
    using assms(1) by (simp add: all_entries_def valid_p_closed [abs_def])
  have run: "Sample_M gen_prob u = Inr (?s, advance (shape0 gen_prob * ?d) u)"
    using v by (simp add: Sample_M_def binomial1_def Let_def)
  have u: "\<And>k. 0 \<le> u k" "\<And>k. u k < 1"
    using assms(2) by (simp_all add: rng_ok_def)
  have mem: "\<And>r v. r \<in> set (rows gen_prob) \<Longrightarrow> v \<in> set r \<Longrightarrow> in_closed 0 1 v"
    using assms(1) by (auto simp: all_entries_def list_all_iff)
  have sh: "shape0 ?s = shape0 gen_prob" "shape1 ?s = shape1 gen_prob"
    by (simp_all add: shape0_def shape1_def)
  have len: "map length (rows ?s) = map length (rows gen_prob)"
    using length_enumerated [of "\<lambda>i (j, v). bernoulli v (u (i * ?d + j))" "rows gen_prob"]
    by simp
  have bin: "all_entries (\<lambda>v. v = Some 0 \<or> v = Some 1) ?s"
    using mem bernoulli_binary by (intro all_entries_enumerated) blast
  have zero: "all_entries (\<lambda>v. v = Some 0) ?s" if "all_entries (\<lambda>v. v = Some 0) gen_prob"
  proof (rule all_entries_enumerated)
    fix i j v r
    assume "r \<in> set (rows gen_prob)" "v \<in> set r"
    with that have "v = Some 0"
      by (auto simp: all_entries_def list_all_iff)
    then show "bernoulli v (u (i * ?d + j)) = Some 0"
      using u(1) by (simp add: bernoulli_zero)
  qed
  have one: "all_entries (\<lambda>v. v = Some 1) ?s" if "all_entries (\<lambda>v. v = Some 1) gen_prob"
  proof (rule all_entries_enumerated)
    fix i j v r
    assume "r \<in> set (rows gen_prob)" "v \<in> set r"
    with that have "v = Some 1"
      by (auto simp: all_entries_def list_all_iff)
    then show "bernoulli v (u (i * ?d + j)) = Some 1"
      using u(2) by (simp add: bernoulli_one)
  qed
  show ?thesis
    using run sh len bin zero one by blast
qed

theorem Sample_M_binary_witness:
  "(\<exists>samples u'. Sample_M \<lparr>ncol = 2, rows = [[Some 0, Some 0]]\<rparr> (\<lambda>k. 1 / 2) = Inr (samples, u')
       \<and> all_entries (\<lambda>v. v = Some 0) samples)
   \<and> (\<exists>samples u'. Sample_M \<lparr>ncol = 2, rows = [[Some 1, Some 1]]\<rparr> (\<lambda>k. 1 / 2) = Inr (samples, u')
       \<and> all_entries (\<lambda>v. v = Some 1) samples)
   \<and> (\<exists>samples u'. Sample_M \<lparr>ncol = 2, rows = [[Some (1 / 4), Some (3 / 4)]]\<rparr> (\<lambda>k. 1 / 2) = Inr (samples, u')
       \<and> all_entries (\<lambda>v. v = Some 0 \<or> v = Some 1) samples)"
proof -
  have u: "rng_ok (\<lambda>k. 1 / 2)"
    by (simp add: rng_ok_def)
  have z: "all_entries (in_closed 0 1) \<lparr>ncol = 2, rows = [[Some 0, Some 0]]\<rparr>"
      "all_entries (\<lambda>v. v = Some 0) \<lparr>ncol = 2, rows = [[Some 0, Some 0]]\<rparr>"
    by (simp_all add: all_entries_def in_closed_def)
  have o: "all_entries (in_closed 0 1) \<lparr>ncol = 2, rows = [[Some 1, Some 1]]\<rparr>"
      "all_entries (\<lambda>v. v = Some 1) \<lparr>ncol = 2, rows = [[Some 1, Some 1]]\<rparr>"
    by (simp_all add: all_entries_def in_closed_def)
  have q: "all_entries (in_closed 0 1) \<lparr>ncol = 2, rows = [[Some (1 / 4), Some (3 / 4)]]\<rparr>"
    by (simp add: all_entries_def in_closed_def)
  show ?thesis
    using Sample_M_binary [OF z(1) u] z(2) Sample_M_binary [OF o(1) u] o(2) Sample_M_binary [OF q u]
    by blast
qed

subsection \<open>The training step\<close>

text \<open>What a step that completes has computed, call by call; the widths that \<open>__init__\<close>
  fixes are kept by every step; on well-shaped data of 64-bit integers a step
  completes.\<close>

lemma bnd_eq_Inr: "bnd m f = Inr y \<longleftrightarrow> (\<exists>x. m = Inr x \<and> f x = Inr y)"
  by (cases m) simp_all

lemma Multiply_Inr:
  assumes "Multiply a b = Inr c"
  shows "dtype a = dtype b" "dtype c = dtype a" "ew2 vmul (arr a) (arr b) = Inr (arr c)"
  using assms by (auto simp: Multiply_def bnd_eq_Inr of_dtype_def split: if_splits)

lemma train_step_cases:
  assumes "train_step K x_train y_train (self, u) = Inr (self', u', L)"
  obtains u1 self1 self2 self3 self4 self5 where
    "randint 0 (int (shape0 (arr x_train))) (batch_size self) u = Inr (idx L, u1)"
    "take_rows (idx L) (arr x_train) = Inr (x_batch L)"
    "take_rows (idx L) (arr y_train) = Inr (y_batch L)"
    "net_predict K Selector (x_batch L) self = Inr (sel_prob L, self1)"
    "Sample_M (sel_prob L) u1 = Inr (sel_mask L, u')"
    "dtype x_train = int64"
    "Multiply (of_dtype (dtype x_train) (x_batch L)) (of_dtype int64 (sel_mask L))
       = Inr (of_dtype int64 (sel_feat L))"
    "net_predict K Predictor (sel_feat L) self1 = Inr (dis_prob L, self2)"
    "net_train_on_batch K Predictor (sel_feat L) (y_batch L) self2 = Inr (d_loss L, self3)"
    "net_predict K Baseline (x_batch L) self3 = Inr (val_prob L, self4)"
    "net_train_on_batch K Baseline (x_batch L) (y_batch L) self4 = Inr (v_loss L, self5)"
    "concatenate_axis1 [sel_prob L, dis_prob L, val_prob L, y_batch L] = Inr (y_batch_final L)"
    "net_train_on_batch K Selector (x_batch L) (y_batch_final L) self5 = Inr (g_loss L, self')"
proof -
  from assms obtain u1 self1 self2 self3 self4 self5 sf where s:
    "randint 0 (int (shape0 (arr x_train))) (batch_size self) u = Inr (idx L, u1)"
    "take_rows (idx L) (arr x_train) = Inr (x_batch L)"
    "take_rows (idx L) (arr y_train) = Inr (y_batch L)"
    "net_predict K Selector (x_batch L) self = Inr (sel_prob L, self1)"
    "Sample_M (sel_prob L) u1 = Inr (sel_mask L, u')"
    "Multiply (of_dtype (dtype x_train) (x_batch L)) (of_dtype int64 (sel_mask L)) = Inr sf"
    "sel_feat L = arr sf"
    "net_predict K Predictor (sel_feat L) self1 = Inr (dis_prob L, self2)"
    "net_train_on_batch K Predictor (sel_feat L) (y_batch L) self2 = Inr (d_loss L, self3)"
    "net_predict K Baseline (x_batch L) self3 = Inr (val_prob L, self4)"
    "net_train_on_batch K Baseline (x_batch L) (y_batch L) self4 = Inr (v_loss L, self5)"
    "concatenate_axis1 [sel_prob L, dis_prob L, val_prob L, y_batch L] = Inr (y_batch_final L)"
    "net_train_on_batch K Selector (x_batch L) (y_batch_final L) self5 = Inr (g_loss L, self')"
    unfolding train_step_def train_step_on_def
    by (auto simp: bnd_eq_Inr)
  have d: "dtype x_train = int64" "sf = of_dtype int64 (sel_feat L)"
    using Multiply_Inr(1,2) [OF s(6)] s(7) by (simp_all add: of_dtype_def)
  show ?thesis
    using that [OF s(1-5) d(1) s(6) [unfolded d(2)] s(8-13)] .
qed

lemma predict_Inr:
  assumes "predict K m x = Inr y"
  shows "ncol x = in_dim m" "ncol y = out_dim m" "shape0 y = shape0 x" "well_formed y"
    "y = \<lparr>ncol = out_dim m, rows = map (\<lambda>r. map (forward K (weights m) r) [0..<out_dim m]) (rows x)\<rparr>"
  using assms
  by (auto simp: predict_def shape0_def well_formed_def list_all_iff split: if_splits)

lemma net_predict_Inr:
  assumes "net_predict K nm x self = Inr (y, self1)"
  shows "predict K (get_net nm self) x = Inr y"
    "self1 = self\<lparr>trace := trace self @ [Predict nm x y]\<rparr>"
  using assms by (auto simp: net_predict_def bnd_eq_Inr)

lemma train_on_batch_Inr:
  assumes "train_on_batch K opt m x y = Inr (opt', m', metrics)"
  obtains l w' where "loss m = Some l" "ncol x = in_dim m" "shape0 x = shape0 y"
    "l = categorical_crossentropy \<Longrightarrow> ncol y = out_dim m"
    "gradient_step K l opt (weights m) x y = Inr (opt', w', metrics)"
    "m' = m\<lparr>weights := w'\<rparr>"
  using assms
  by (auto simp: train_on_batch_def bnd_eq_Inr split: option.splits if_splits)

lemma net_train_on_batch_Inr:
  assumes "net_train_on_batch K nm x y self = Inr (metrics, self1)"
  obtains opt' m' where
    "train_on_batch K (optimizer self) (get_net nm self) x y = Inr (opt', m', metrics)"
    "self1 = set_net nm m' (self\<lparr>optimizer := opt', trace := trace self @ [TrainOnBatch nm x y]\<rparr>)"
  using assms by (auto simp: net_train_on_batch_def bnd_eq_Inr)

lemma get_set_net [simp]:
  "get_net nm (set_net nm' m self) = (if nm = nm' then m else get_net nm self)"
  "get_net nm (self\<lparr>trace := t\<rparr>) = get_net nm self"
  "get_net nm (self\<lparr>optimizer := opt\<rparr>) = get_net nm self"
  "trace (set_net nm m self) = trace self"
  "optimizer (set_net nm m self) = optimizer self"
  "batch_size (set_net nm m self) = batch_size self"
  by (cases nm; cases nm'; simp add: get_net_def set_net_def)+

lemma train_step_run:
  assumes "train_step K x_train y_train (self, u) = Inr (self', u', L)"
  obtains u1 opt1 m1 opt2 m2 opt3 m3 where
    "randint 0 (int (shape0 (arr x_train))) (batch_size self) u = Inr (idx L, u1)"
    "take_rows (idx L) (arr x_train) = Inr (x_batch L)"
    "take_rows (idx L) (arr y_train) = Inr (y_batch L)"
    "predict K (selector self) (x_batch L) = Inr (sel_prob L)"
    "Sample_M (sel_prob L) u1 = Inr (sel_mask L, u')"
    "dtype x_train = int64"
    "Multiply (of_dtype (dtype x_train) (x_batch L)) (of_dtype int64 (sel_mask L))
       = Inr (of_dtype int64 (sel_feat L))"
    "predict K (predictor self) (sel_feat L) = Inr (dis_prob L)"
    "train_on_batch K (optimizer self) (predictor self) (sel_feat L) (y_batch L) = Inr (opt1, m1, d_loss L)"
    "predict K (baseline self) (x_batch L) = Inr (val_prob L)"
    "train_on_batch K opt1 (baseline self) (x_batch L) (y_batch L) = Inr (opt2, m2, v_loss L)"
    "concatenate_axis1 [sel_prob L, dis_prob L, val_prob L, y_batch L] = Inr (y_batch_final L)"
    "train_on_batch K opt2 (selector self) (x_batch L) (y_batch_final L) = Inr (opt3, m3, g_loss L)"
    "self' = self\<lparr>optimizer := opt3, predictor := m1, selector := m3, baseline := m2,
        trace := trace self @
          [Predict Selector (x_batch L) (sel_prob L),
           Predict Predictor (sel_feat L) (dis_prob L),
           TrainOnBatch Predictor (sel_feat L) (y_batch L),
           Predict Baseline (x_batch L) (val_prob L),
           TrainOnBatch Baseline (x_batch L) (y_batch L),
           TrainOnBatch Selector (x_batch L) (y_batch_final L)]\<rparr>"
proof -
  from assms obtain u1 self1 self2 self3 self4 self5 where s:
    "randint 0 (int (shape0 (arr x_train))) (batch_size self) u = Inr (idx L, u1)"
    "take_rows (idx L) (arr x_train) = Inr (x_batch L)"
    "take_rows (idx L) (arr y_train) = Inr (y_batch L)"
    "net_predict K Selector (x_batch L) self = Inr (sel_prob L, self1)"
    "Sample_M (sel_prob L) u1 = Inr (sel_mask L, u')"
    "dtype x_train = int64"
    "Multiply (of_dtype (dtype x_train) (x_batch L)) (of_dtype int64 (sel_mask L))
       = Inr (of_dtype int64 (sel_feat L))"
    "net_predict K Predictor (sel_feat L) self1 = Inr (dis_prob L, self2)"
    "net_train_on_batch K Predictor (sel_feat L) (y_batch L) self2 = Inr (d_loss L, self3)"
    "net_predict K Baseline (x_batch L) self3 = Inr (val_prob L, self4)"
    "net_train_on_batch K Baseline (x_batch L) (y_batch L) self4 = Inr (v_loss L, self5)"
    "concatenate_axis1 [sel_prob L, dis_prob L, val_prob L, y_batch L] = Inr (y_batch_final L)"
    "net_train_on_batch K Selector (x_batch L) (y_batch_final L) self5 = Inr (g_loss L, self')"
    by (rule train_step_cases)
  note p1 = net_predict_Inr [OF s(4)]
  note p2 = net_predict_Inr [OF s(8)]
  from s(9) obtain opt1 m1 where t1:
    "train_on_batch K (optimizer self2) (get_net Predictor self2) (sel_feat L) (y_batch L) = Inr (opt1, m1, d_loss L)"
    "self3 = set_net Predictor m1 (self2\<lparr>optimizer := opt1, trace := trace self2 @ [TrainOnBatch Predictor (sel_feat L) (y_batch L)]\<rparr>)"
    by (rule net_train_on_batch_Inr)
  note p3 = net_predict_Inr [OF s(10)]
  from s(11) obtain opt2 m2 where t2:
    "train_on_batch K (optimizer self4) (get_net Baseline self4) (x_batch L) (y_batch L) = Inr (opt2, m2, v_loss L)"
    "self5 = set_net Baseline m2 (self4\<lparr>optimizer := opt2, trace := trace self4 @ [TrainOnBatch Baseline (x_batch L) (y_batch L)]\<rparr>)"
    by (rule net_train_on_batch_Inr)
  from s(13) obtain opt3 m3 where t3:
    "train_on_batch K (optimizer self5) (get_net Selector self5) (x_batch L) (y_batch_final L) = Inr (opt3, m3, g_loss L)"
    "self' = set_net Selector m3 (self5\<lparr>optimizer := opt3, trace := trace self5 @ [TrainOnBatch Selector (x_batch L) (y_batch_final L)]\<rparr>)"
    by (rule net_train_on_batch_Inr)
  show ?thesis
  proof (rule that [of u1 opt1 m1 opt2 m2 opt3 m3])
    show "predict K (selector self) (x_batch L) = Inr (sel_prob L)"
      using p1(1) by (simp add: get_net_def)
    show "predict K (predictor self) (sel_feat L) = Inr (dis_prob L)"
      using p2(1) p1(2) by (simp add: get_net_def)
    show "train_on_batch K (optimizer self) (predictor self) (sel_feat L) (y_batch L) = Inr (opt1, m1, d_loss L)"
      using t1(1) p1(2) p2(2) by (simp add: get_net_def)
    show "predict K (baseline self) (x_batch L) = Inr (val_prob L)"
      using p3(1) t1(2) p1(2) p2(2) by (simp add: get_net_def set_net_def)
    show "train_on_batch K opt1 (baseline self) (x_batch L) (y_batch L) = Inr (opt2, m2, v_loss L)"
      using t2(1) p3(2) t1(2) p1(2) p2(2) by (simp add: get_net_def set_net_def)
    show "train_on_batch K opt2 (selector self) (x_batch L) (y_batch_final L) = Inr (opt3, m3, g_loss L)"
      using t3(1) t2(2) p3(2) t1(2) p1(2) p2(2) by (simp add: get_net_def set_net_def)
    show "self' = self\<lparr>optimizer := opt3, predictor := m1, selector := m3, baseline := m2,
        trace := trace self @
          [Predict Selector (x_batch L) (sel_prob L),
           Predict Predictor (sel_feat L) (dis_prob L),
           TrainOnBatch Predictor (sel_feat L) (y_batch L),
           Predict Baseline (x_batch L) (val_prob L),
           TrainOnBatch Baseline (x_batch L) (y_batch L),
           TrainOnBatch Selector (x_batch L) (y_batch_final L)]\<rparr>"
      using t3(2) t2(2) p3(2) t1(2) p1(2) p2(2) by (simp add: set_net_def)
  qed (fact s)+
qed






lemma floor_draw:
  assumes "0 \<le> x" "x < 1" "0 < N"
  shows "0 \<le> \<lfloor>x * real N\<rfloor>" "\<lfloor>x * real N\<rfloor> < int N"
proof -
  show "0 \<le> \<lfloor>x * real N\<rfloor>"
    using assms by simp
  have "x * real N < real N"
    using assms by simp
  then show "\<lfloor>x * real N\<rfloor> < int N"
    by (simp add: floor_less_iff)
qed


lemma take_rows_Inr:
  assumes "take_rows js a = Inr b"
  shows "shape0 b = length js" "ncol b = ncol a"
    "\<And>i. i < length js \<Longrightarrow> 0 \<le> js ! i \<Longrightarrow> rows b ! i = rows a ! nat (js ! i)"
  using assms by (auto simp: take_rows_def shape0_def Let_def split: if_splits)

lemma INVASE_init_compiled: "compiled_for (shape1 x_train) (INVASE_init K x_train data_type n_epoch logging lr)"
  by (simp add: compiled_for_def INVASE_init_def Let_def compile_def build_selector_def build_base_network_def)

lemma train_on_batch_keeps:
  assumes "train_on_batch K opt m x y = Inr (opt', m', metrics)"
  shows "in_dim m' = in_dim m" "out_dim m' = out_dim m" "loss m' = loss m" "layers m' = layers m"
  using assms by (auto elim!: train_on_batch_Inr)

lemma train_step_keeps:
  assumes "train_step K x_train y_train (self, u) = Inr (self', u', L)"
  shows "compiled_for d self' = compiled_for d self" "batch_size self' = batch_size self"
    "tau self' = tau self" "epochs self' = epochs self" "input_shape self' = input_shape self"
proof -
  from assms obtain u1 opt1 m1 opt2 m2 opt3 m3 where r:
    "train_on_batch K (optimizer self) (predictor self) (sel_feat L) (y_batch L) = Inr (opt1, m1, d_loss L)"
    "train_on_batch K opt1 (baseline self) (x_batch L) (y_batch L) = Inr (opt2, m2, v_loss L)"
    "train_on_batch K opt2 (selector self) (x_batch L) (y_batch_final L) = Inr (opt3, m3, g_loss L)"
    "self' = self\<lparr>optimizer := opt3, predictor := m1, selector := m3, baseline := m2,
        trace := trace self @
          [Predict Selector (x_batch L) (sel_prob L),
           Predict Predictor (sel_feat L) (dis_prob L),
           TrainOnBatch Predictor (sel_feat L) (y_batch L),
           Predict Baseline (x_batch L) (val_prob L),
           TrainOnBatch Baseline (x_batch L) (y_batch L),
           TrainOnBatch Selector (x_batch L) (y_batch_final L)]\<rparr>"
    by (rule train_step_run)
  show "compiled_for d self' = compiled_for d self"
    using train_on_batch_keeps [OF r(1)] train_on_batch_keeps [OF r(2)] train_on_batch_keeps [OF r(3)]
    by (simp add: compiled_for_def r(4))
  show "batch_size self' = batch_size self" "tau self' = tau self" "epochs self' = epochs self"
    "input_shape self' = input_shape self"
    by (simp_all add: r(4))
qed


lemma train_loop_keeps:
  assumes "train_loop K x_train y_train es (self, u, out) = Inr (self', u', out')"
  shows "compiled_for d self' = compiled_for d self \<and> batch_size self' = batch_size self
       \<and> tau self' = tau self"
  using assms
proof (induction es arbitrary: self u out)
  case Nil
  then show ?case by simp
next
  case (Cons e es)
  from Cons.prems obtain self1 u1 l printed where
    s: "train_step K x_train y_train (self, u) = Inr (self1, u1, l)"
    and r: "train_loop K x_train y_train es (self1, u1, out @ printed) = Inr (self', u', out')"
    by (auto simp: bnd_eq_Inr)
  show ?case
    using Cons.IH [OF r] train_step_keeps [OF s] by simp
qed

lemmas step_defs = train_step_def randint_def take_rows_def net_predict_def predict_def get_net_def
  set_net_def Sample_M_def binomial1_def Multiply_def ew2_def bdim_def bidx_def
  net_train_on_batch_def train_on_batch_def concatenate_axis1_def INVASE_init_def
  build_selector_def build_base_network_def compile_def const_keras_def shape0_def shape1_def
  valid_p_def bernoulli_def advance_def enumerate_eq_zip Let_def
  x_one_def x_zero_def y_one_def self_one_def draws_keep_def draws_drop_def
  train_step_on_def of_dtype_def x_two_def y_two_def self_two_def draws_twice_def draws_swap_def



lemma take_rows_ok:
  assumes "\<forall>j\<in>set js. 0 \<le> j \<and> j < int (shape0 a)"
  shows "\<exists>b. take_rows js a = Inr b"
  using assms by (auto simp: take_rows_def Let_def list_all_iff)

lemma randint_ok:
  assumes "0 < N" "rng_ok u"
  shows "\<exists>js. randint 0 (int N) b u = Inr (js, advance b u) \<and> length js = b
            \<and> (\<forall>j\<in>set js. 0 \<le> j \<and> j < int N)"
proof -
  have u: "\<And>k. 0 \<le> u k" "\<And>k. u k < 1"
    using assms(2) by (simp_all add: rng_ok_def)
  have "\<forall>j\<in>set (map (\<lambda>k. \<lfloor>u k * real N\<rfloor>) [0..<b]). 0 \<le> j \<and> j < int N"
    using floor_draw(1,2) [OF u(1) u(2) assms(1)] by auto
  then show ?thesis
    using assms(1) by (simp add: randint_def)
qed

lemma predict_ok: "ncol x = in_dim m \<Longrightarrow> \<exists>y. predict K m x = Inr y"
  by (simp add: predict_def)

lemma Sample_M_ok:
  assumes "all_entries (in_closed 0 1) p"
  shows "\<exists>m. Sample_M p u = Inr (m, advance (shape0 p * shape1 p) u) \<and> ncol m = ncol p \<and> shape0 m = shape0 p"
proof -
  have "list_all (list_all valid_p) (rows p)"
    using assms by (simp add: all_entries_def valid_p_closed [abs_def])
  then show ?thesis
    by (simp add: Sample_M_def binomial1_def Let_def shape0_def shape1_def)
qed

lemma Multiply_ok:
  assumes "dtype a = dtype b" "ncol (arr a) = ncol (arr b)" "shape0 (arr a) = shape0 (arr b)"
  shows "\<exists>c. Multiply a b = Inr c \<and> ncol (arr c) = ncol (arr a) \<and> shape0 (arr c) = shape0 (arr a)"
  using assms by (simp add: Multiply_def ew2_def shape0_def of_dtype_def)

lemma train_on_batch_ok:
  assumes "loss m = Some l" "ncol x = in_dim m" "shape0 x = shape0 y"
    "l = categorical_crossentropy \<longrightarrow> ncol y = out_dim m"
    "\<forall>l opt w x y. \<exists>r. gradient_step K l opt w x y = Inr r"
  shows "\<exists>r. train_on_batch K opt m x y = Inr r"
proof -
  obtain r where "gradient_step K l opt (weights m) x y = Inr r"
    using assms(5) by blast
  then show ?thesis
    using assms(1-4) by (cases r) (auto simp: train_on_batch_def)
qed

lemma net_predict_ok:
  assumes "ncol x = in_dim (get_net nm self)"
  shows "\<exists>y. predict K (get_net nm self) x = Inr y
           \<and> net_predict K nm x self = Inr (y, self\<lparr>trace := trace self @ [Predict nm x y]\<rparr>)"
  using assms by (simp add: net_predict_def predict_def)

lemma net_train_on_batch_ok:
  assumes "loss (get_net nm self) = Some l" "ncol x = in_dim (get_net nm self)" "shape0 x = shape0 y"
    "l = categorical_crossentropy \<longrightarrow> ncol y = out_dim (get_net nm self)"
    "\<forall>l opt w x y. \<exists>r. gradient_step K l opt w x y = Inr r"
  shows "\<exists>opt' w' metrics.
           net_train_on_batch K nm x y self
           = Inr (metrics, set_net nm ((get_net nm self)\<lparr>weights := w'\<rparr>)
                   (self\<lparr>optimizer := opt', trace := trace self @ [TrainOnBatch nm x y]\<rparr>))"
proof -
  obtain r where "gradient_step K l (optimizer self) (weights (get_net nm self)) x y = Inr r"
    using assms(5) by blast
  then show ?thesis
    using assms(1-4) by (cases r) (auto simp: net_train_on_batch_def train_on_batch_def)
qed

lemma compiled_for_get_net:
  assumes "compiled_for d self"
  shows "in_dim (get_net nm self) = d"
    "out_dim (get_net Selector self) = d" "out_dim (get_net Predictor self) = 2"
    "out_dim (get_net Baseline self) = 2"
    "loss (get_net Selector self) = Some custom_my_loss"
    "loss (get_net Predictor self) = Some categorical_crossentropy"
    "loss (get_net Baseline self) = Some categorical_crossentropy"
  using assms by (cases nm; simp add: compiled_for_def get_net_def)+

lemma compiled_for_updates [simp]:
  "compiled_for d (self\<lparr>trace := t\<rparr>) = compiled_for d self"
  "compiled_for d (self\<lparr>optimizer := opt\<rparr>) = compiled_for d self"
  "compiled_for d (set_net nm ((get_net nm self)\<lparr>weights := w\<rparr>) self) = compiled_for d self"
  by (cases nm; simp add: compiled_for_def get_net_def set_net_def)+

lemma predict_range:
  assumes "predict K m x = Inr y" and "\<forall>r j. P (forward K (weights m) r j)"
  shows "all_entries P y"
  using assms by (auto simp: predict_def all_entries_def list_all_iff split: if_splits)

lemma concatenate4_ok:
  assumes "shape0 b = shape0 a" "shape0 c = shape0 a" "shape0 e = shape0 a"
  shows "\<exists>t. concatenate_axis1 [a, b, c, e] = Inr t \<and> shape0 t = shape0 a"
  using assms by (simp add: concatenate_axis1_def shape0_def)

lemma net_predict_compiled:
  assumes "compiled_for d self" "ncol x = d"
  shows "\<exists>y self'. net_predict K nm x self = Inr (y, self') \<and> compiled_for d self'
           \<and> predict K (get_net nm self) x = Inr y \<and> shape0 y = shape0 x"
proof -
  obtain y where y: "predict K (get_net nm self) x = Inr y"
    "net_predict K nm x self = Inr (y, self\<lparr>trace := trace self @ [Predict nm x y]\<rparr>)"
    using net_predict_ok [of x nm self K] assms compiled_for_get_net(1) [OF assms(1)] by auto
  show ?thesis
    using y predict_Inr(3) [OF y(1)] assms(1) by simp
qed

lemma net_train_on_batch_compiled:
  assumes "compiled_for d self" "ncol x = d" "shape0 x = shape0 y"
    "nm \<noteq> Selector \<longrightarrow> ncol y = 2"
    "\<forall>l opt w x y. \<exists>r. gradient_step K l opt w x y = Inr r"
  shows "\<exists>metrics self'. net_train_on_batch K nm x y self = Inr (metrics, self')
           \<and> compiled_for d self'"
proof -
  obtain l where l: "loss (get_net nm self) = Some l"
    "l = categorical_crossentropy \<longrightarrow> ncol y = out_dim (get_net nm self)"
    using compiled_for_get_net [OF assms(1)] assms(4) by (cases nm) auto
  obtain opt' w' metrics where r: "net_train_on_batch K nm x y self
      = Inr (metrics, set_net nm ((get_net nm self)\<lparr>weights := w'\<rparr>)
               (self\<lparr>optimizer := opt', trace := trace self @ [TrainOnBatch nm x y]\<rparr>))"
    using net_train_on_batch_ok [OF l(1) _ assms(3) l(2) assms(5)] assms(2)
      compiled_for_get_net(1) [OF assms(1)] by metis
  have "compiled_for d (set_net nm ((get_net nm self)\<lparr>weights := w'\<rparr>)
               (self\<lparr>optimizer := opt', trace := trace self @ [TrainOnBatch nm x y]\<rparr>))"
    using assms(1) by (cases nm) (simp_all add: compiled_for_def set_net_def get_net_def)
  with r show ?thesis by blast
qed

lemma train_step_completes:
  assumes c: "compiled_for d self"
    and ty: "dtype x_train = int64"
    and x: "ncol (arr x_train) = d" "0 < shape0 (arr x_train)"
    and y: "ncol (arr y_train) = 2" "shape0 (arr y_train) = shape0 (arr x_train)"
    and u: "rng_ok u"
    and sel: "\<forall>r j. in_closed 0 1 (forward K (weights (selector self)) r j)"
    and g: "\<forall>l opt w x y. \<exists>r. gradient_step K l opt w x y = Inr r"
  shows "\<exists>self' u' L. train_step K x_train y_train (self, u) = Inr (self', u', L)"
proof -
  let ?b = "batch_size self"
  obtain js where js: "randint 0 (int (shape0 (arr x_train))) ?b u = Inr (js, advance ?b u)"
    "length js = ?b" "\<forall>j\<in>set js. 0 \<le> j \<and> j < int (shape0 (arr x_train))"
    using randint_ok [OF x(2) u] by blast
  obtain xb where xb: "take_rows js (arr x_train) = Inr xb"
    using take_rows_ok [OF js(3)] by blast
  obtain yb where yb: "take_rows js (arr y_train) = Inr yb"
    using take_rows_ok [of js "arr y_train"] js(3) y(2) by auto
  have sx: "shape0 xb = ?b" "ncol xb = d"
    using take_rows_Inr(1,2) [OF xb] js(2) x(1) by simp_all
  have sy: "shape0 yb = ?b" "ncol yb = 2"
    using take_rows_Inr(1,2) [OF yb] js(2) y(1) by simp_all
  obtain sp s1 where sp: "net_predict K Selector xb self = Inr (sp, s1)" "compiled_for d s1"
    "predict K (get_net Selector self) xb = Inr sp" "shape0 sp = shape0 xb"
    using net_predict_compiled [OF c sx(2)] by blast
  have ssp: "ncol sp = d"
    using predict_Inr(2) [OF sp(3)] compiled_for_get_net(2) [OF c] by simp
  have "all_entries (in_closed 0 1) sp"
    using sel by (intro predict_range [OF sp(3)]) (simp add: get_net_def)
  then obtain sm u' where sm: "Sample_M sp (advance ?b u) = Inr (sm, u')"
    "ncol sm = ncol sp" "shape0 sm = shape0 sp"
    using Sample_M_ok by blast
  obtain sfa where sfa: "Multiply (of_dtype (dtype x_train) xb) (of_dtype int64 sm) = Inr sfa"
    "ncol (arr sfa) = ncol xb" "shape0 (arr sfa) = shape0 xb"
    using Multiply_ok [of "of_dtype (dtype x_train) xb" "of_dtype int64 sm"] ty sm(2,3) ssp sp(4) sx
    by (auto simp: of_dtype_def)
  define sf where "sf = arr sfa"
  have sf: "ncol sf = ncol xb" "shape0 sf = shape0 xb"
    using sfa(2,3) by (simp_all add: sf_def)
  have nsf: "ncol sf = d" "shape0 sf = shape0 yb"
    using sf sx sy by simp_all
  obtain dp s2 where dp: "net_predict K Predictor sf s1 = Inr (dp, s2)" "compiled_for d s2"
    "shape0 dp = shape0 sf"
    using net_predict_compiled [OF sp(2) nsf(1)] by blast
  have ny: "nm \<noteq> Selector \<longrightarrow> ncol yb = 2" for nm
    using sy(2) by simp
  obtain dl s3 where t1: "net_train_on_batch K Predictor sf yb s2 = Inr (dl, s3)" "compiled_for d s3"
    using net_train_on_batch_compiled [OF dp(2) nsf ny g] by blast
  obtain vp s4 where vp: "net_predict K Baseline xb s3 = Inr (vp, s4)" "compiled_for d s4"
    "shape0 vp = shape0 xb"
    using net_predict_compiled [OF t1(2) sx(2)] by blast
  have xy: "shape0 xb = shape0 yb"
    using sx(1) sy(1) by simp
  obtain vl s5 where t2: "net_train_on_batch K Baseline xb yb s4 = Inr (vl, s5)" "compiled_for d s5"
    using net_train_on_batch_compiled [OF vp(2) sx(2) xy ny g] by blast
  have sh: "shape0 dp = shape0 sp" "shape0 vp = shape0 sp" "shape0 yb = shape0 sp"
    using sp(4) dp(3) sf(2) vp(3) sx(1) sy(1) by simp_all
  obtain t where t: "concatenate_axis1 [sp, dp, vp, yb] = Inr t" "shape0 t = shape0 sp"
    using concatenate4_ok [OF sh] by blast
  have xt: "shape0 xb = shape0 t" "Selector \<noteq> Selector \<longrightarrow> ncol t = 2"
    using t(2) sp(4) by simp_all
  obtain gl s6 where t3: "net_train_on_batch K Selector xb t s5 = Inr (gl, s6)"
    using net_train_on_batch_compiled [OF t2(2) sx(2) xt g] by blast
  show ?thesis
    unfolding train_step_def train_step_on_def
    using dp(1) t1(1)
    by (simp add: js(1) xb yb sp(1) sm(1) sfa(1) sf_def vp(1) t2(1) t(1) t3)
qed




lemma train_step_needs_int64:
  assumes "dtype x_train \<noteq> int64"
  shows "train_step K x_train y_train (self, u) \<noteq> Inr (self', u', L)"
proof
  assume "train_step K x_train y_train (self, u) = Inr (self', u', L)"
  then have "dtype x_train = int64"
    by (rule train_step_run)
  with assms show False by simp
qed

lemma train_step_raises:
  assumes c: "compiled_for d self"
    and ty: "dtype x_train \<noteq> int64"
    and x: "ncol (arr x_train) = d" "0 < shape0 (arr x_train)"
    and y: "shape0 (arr y_train) = shape0 (arr x_train)"
    and u: "rng_ok u"
    and sel: "\<forall>r j. in_closed 0 1 (forward K (weights (selector self)) r j)"
  shows "train_step K x_train y_train (self, u) = Inl InvalidArgumentError"
proof -
  let ?b = "batch_size self"
  obtain js where js: "randint 0 (int (shape0 (arr x_train))) ?b u = Inr (js, advance ?b u)"
    "length js = ?b" "\<forall>j\<in>set js. 0 \<le> j \<and> j < int (shape0 (arr x_train))"
    using randint_ok [OF x(2) u] by blast
  obtain xb where xb: "take_rows js (arr x_train) = Inr xb"
    using take_rows_ok [OF js(3)] by blast
  obtain yb where yb: "take_rows js (arr y_train) = Inr yb"
    using take_rows_ok [of js "arr y_train"] js(3) y by auto
  have sx: "ncol xb = d"
    using take_rows_Inr(2) [OF xb] x(1) by simp
  obtain sp s1 where sp: "net_predict K Selector xb self = Inr (sp, s1)"
    "predict K (get_net Selector self) xb = Inr sp"
    using net_predict_compiled [OF c sx] by blast
  have "all_entries (in_closed 0 1) sp"
    using sel by (intro predict_range [OF sp(2)]) (simp add: get_net_def)
  then obtain sm u' where sm: "Sample_M sp (advance ?b u) = Inr (sm, u')"
    using Sample_M_ok by blast
  have "Multiply (of_dtype (dtype x_train) xb) (of_dtype int64 sm) = Inl InvalidArgumentError"
    using ty by (simp add: Multiply_def of_dtype_def)
  then show ?thesis
    unfolding train_step_def train_step_on_def
    by (simp add: js(1) xb yb sp(1) sm)
qed

lemma train_step_float_raises:
  "train_step const_keras (of_dtype float32 x_one) (of_dtype float32 y_one) (self_one, draws_keep)
     = Inl InvalidArgumentError"
  by (simp add: step_defs upt2)









end
